theory Spec2Isabelle
  imports Main "HOL-Library.Sublist"
begin

section \<open>The collocation search endpoint of \<open>API/myapp/myapp/main.py\<close>\<close>

text \<open>
  The endpoint \<open>search_dependencies\<close> validates a filter request, compiles it into one
  parametrised SQL text with a positional argument list, runs it on a pooled connection and
  reshapes the rows. The model below follows the function statement by statement: the
  request is a record of the endpoint's arguments, the SQL text is a \<open>string\<close> built from the
  same literal lines as the f-strings of the source, the argument list is a list of
  \<open>param\<close>, and the connection pool is an explicit \<open>store\<close> whose use is recorded in a trace.
\<close>

subsection \<open>Requests, bound values, rows\<close>

text \<open>The arguments of \<open>search_dependencies\<close> (lines 54-75); \<open>Optional\<close> is \<open>option\<close>.\<close>

record filter_request =
  head_text :: "string option"
  head_pos :: "string list option"
  dpdt_text :: "string option"
  dpdt_pos :: "string list option"
  dep_type :: "string list option"
  freq_inf :: int
  freq_sup :: "int option"
  results_limit :: int
  results_offset :: int
  examples_limit :: int
  examples_offset :: int
  book_names :: "string list option"
  book_categories :: "string list option"
  book_periods :: "string list option"
  book_styles :: "string list option"

text \<open>A value handed to \<open>connection.fetch\<close>: a string, a list of strings or an integer.\<close>

datatype param = PText string | PArray "string list" | PInt int

text \<open>
  Python's truth test \<open>if x:\<close> on an optional string or list: \<open>None\<close> and the empty
  value are both false.
\<close>

definition truthy :: "'a list option \<Rightarrow> bool" where
  "truthy x = (case x of None \<Rightarrow> False | Some v \<Rightarrow> v \<noteq> [])"

text \<open>The bounds that the \<open>Query(...)\<close> declarations enforce before the function runs.\<close>

definition in_bounds :: "filter_request \<Rightarrow> bool" where
  "in_bounds req \<longleftrightarrow>
     1 \<le> freq_inf req \<and> (case freq_sup req of None \<Rightarrow> True | Some v \<Rightarrow> 1 \<le> v) \<and>
     0 < results_limit req \<and> 0 \<le> results_offset req \<and>
     0 < examples_limit req \<and> 0 \<le> examples_offset req"

text \<open>The test of lines 81-85, negated: the request goes on to the query builder.\<close>

definition passes_validation :: "filter_request \<Rightarrow> bool" where
  "passes_validation req \<longleftrightarrow> \<not> (\<not> truthy (head_text req) \<and> \<not> truthy (dpdt_text req))"

subsection \<open>Decimal text of a position, and the placeholders of a query text\<close>

text \<open>\<open>str(n)\<close> for a non-negative Python integer.\<close>

definition digit_char :: "nat \<Rightarrow> char" where
  "digit_char d = char_of (48 + d)"

fun str_nat :: "nat \<Rightarrow> string" where
  "str_nat n =
     (if 10 \<le> n then str_nat (n div 10) @ [digit_char (n mod 10)] else [digit_char n])"

declare str_nat.simps [simp del]

definition is_digit :: "char \<Rightarrow> bool" where
  "is_digit c \<longleftrightarrow> (48::nat) \<le> of_char c \<and> of_char c \<le> (57::nat)"

definition nat_of_digits :: "string \<Rightarrow> nat" where
  "nat_of_digits ds = foldl (\<lambda>a c. 10 * a + (of_char c - 48)) 0 ds"

text \<open>
  The positional parameters that a query text refers to, in textual order and with
  repetitions: every \<open>$\<close> followed by a maximal non-empty run of decimal digits, as the
  store's lexer reads \<open>$n\<close>.
\<close>

function placeholders :: "string \<Rightarrow> nat list" where
  "placeholders [] = []"
| "placeholders (c # cs) =
     (if c = CHR ''$'' \<and> takeWhile is_digit cs \<noteq> []
      then nat_of_digits (takeWhile is_digit cs) # placeholders (dropWhile is_digit cs)
      else placeholders cs)"
  by pat_completeness auto
termination
  by (relation "measure length") (auto simp: length_dropWhile_le less_Suc_eq_le)

declare placeholders.simps(2) [simp del]

text \<open>\<open>sep.join(xs)\<close>.\<close>

fun join_str :: "string \<Rightarrow> string list \<Rightarrow> string" where
  "join_str sep [] = []"
| "join_str sep [x] = x"
| "join_str sep (x # y # ys) = x @ sep @ join_str sep (y # ys)"

subsection \<open>The WHERE predicates (lines 89-128)\<close>

text \<open>
  The three variables \<open>where_clauses\<close>, \<open>params\<close> and \<open>param_counter\<close> that the source
  updates together; \<open>append_clause\<close> is the body shared by the five \<open>if\<close> statements:
  append the predicate numbered with the current counter, append its value, add one.
\<close>

type_synonym builder = "string list \<times> param list \<times> nat"

definition append_clause :: "(nat \<Rightarrow> string) \<Rightarrow> param \<Rightarrow> builder \<Rightarrow> builder" where
  "append_clause f p b =
     (case b of (where_clauses, params, param_counter) \<Rightarrow>
        (where_clauses @ [f param_counter], params @ [p], param_counter + 1))"

definition where_stage :: "filter_request \<Rightarrow> builder" where
  "where_stage req =
     (let b0 = ([], [], 1);
          b1 = (if truthy (head_text req)
                then append_clause (\<lambda>n. ''head_text LIKE $'' @ str_nat n)
                       (PText (''%'' @ the (head_text req) @ ''%'')) b0
                else b0);
          b2 = (if truthy (dpdt_text req)
                then append_clause (\<lambda>n. ''dependent_text LIKE $'' @ str_nat n)
                       (PText (''%'' @ the (dpdt_text req) @ ''%'')) b1
                else b1);
          b3 = (if truthy (head_pos req)
                then append_clause (\<lambda>n. ''head_pos = ANY($'' @ str_nat n @ ''::text[])'')
                       (PArray (the (head_pos req))) b2
                else b2);
          b4 = (if truthy (dpdt_pos req)
                then append_clause (\<lambda>n. ''dependent_pos = ANY($'' @ str_nat n @ ''::text[])'')
                       (PArray (the (dpdt_pos req))) b3
                else b3);
          b5 = (if truthy (dep_type req)
                then append_clause (\<lambda>n. ''dependency_type = ANY($'' @ str_nat n @ ''::text[])'')
                       (PArray (the (dep_type req))) b4
                else b4)
      in b5)"

definition where_clauses :: "filter_request \<Rightarrow> string list" where
  "where_clauses req = fst (where_stage req)"

definition where_params :: "filter_request \<Rightarrow> param list" where
  "where_params req = fst (snd (where_stage req))"

definition final_where_sql :: "filter_request \<Rightarrow> string" where
  "final_where_sql req = join_str '' AND '' (where_clauses req)"

subsection \<open>Positions of the remaining parameters (lines 130-172)\<close>

definition freq_inf_pos :: "filter_request \<Rightarrow> nat" where
  "freq_inf_pos req = snd (snd (where_stage req))"

definition freq_sup_pos :: "filter_request \<Rightarrow> nat option" where
  "freq_sup_pos req = (if freq_sup req \<noteq> None then Some (freq_inf_pos req + 1) else None)"

definition counter_after_freq :: "filter_request \<Rightarrow> nat" where
  "counter_after_freq req =
     (if freq_sup req \<noteq> None then freq_inf_pos req + 1 + 1 else freq_inf_pos req + 1)"

definition book_names_pos :: "filter_request \<Rightarrow> nat option" where
  "book_names_pos req =
     (if truthy (book_names req) then Some (counter_after_freq req) else None)"

definition counter_after_names :: "filter_request \<Rightarrow> nat" where
  "counter_after_names req =
     (if truthy (book_names req) then counter_after_freq req + 1 else counter_after_freq req)"

definition categories_pos :: "filter_request \<Rightarrow> nat option" where
  "categories_pos req =
     (if truthy (book_categories req) then Some (counter_after_names req) else None)"

definition counter_after_categories :: "filter_request \<Rightarrow> nat" where
  "counter_after_categories req =
     (if truthy (book_categories req) then counter_after_names req + 1
      else counter_after_names req)"

definition periods_pos :: "filter_request \<Rightarrow> nat option" where
  "periods_pos req =
     (if truthy (book_periods req) then Some (counter_after_categories req) else None)"

definition counter_after_periods :: "filter_request \<Rightarrow> nat" where
  "counter_after_periods req =
     (if truthy (book_periods req) then counter_after_categories req + 1
      else counter_after_categories req)"

definition styles_pos :: "filter_request \<Rightarrow> nat option" where
  "styles_pos req =
     (if truthy (book_styles req) then Some (counter_after_periods req) else None)"

definition counter_after_styles :: "filter_request \<Rightarrow> nat" where
  "counter_after_styles req =
     (if truthy (book_styles req) then counter_after_periods req + 1
      else counter_after_periods req)"

definition examples_limit_pos :: "filter_request \<Rightarrow> nat" where
  "examples_limit_pos req = counter_after_styles req"

definition examples_offset_pos :: "filter_request \<Rightarrow> nat" where
  "examples_offset_pos req = counter_after_styles req + 1"

definition results_limit_pos :: "filter_request \<Rightarrow> nat" where
  "results_limit_pos req = counter_after_styles req + 1 + 1"

definition results_offset_pos :: "filter_request \<Rightarrow> nat" where
  "results_offset_pos req = counter_after_styles req + 1 + 1 + 1"

subsection \<open>The book filter and the two example subqueries (lines 174-211)\<close>

definition book_filter_conditions :: "filter_request \<Rightarrow> string list" where
  "book_filter_conditions req =
     (if truthy (book_names req)
      then [''name = ANY($'' @ str_nat (the (book_names_pos req)) @ ''::text[])''] else []) @
     (if truthy (book_categories req)
      then [''category = ANY($'' @ str_nat (the (categories_pos req)) @ ''::text[])''] else []) @
     (if truthy (book_periods req)
      then [''period = ANY($'' @ str_nat (the (periods_pos req)) @ ''::text[])''] else []) @
     (if truthy (book_styles req)
      then [''style = ANY($'' @ str_nat (the (styles_pos req)) @ ''::text[])''] else [])"

definition books_filter_inner_sql :: "filter_request \<Rightarrow> string" where
  "books_filter_inner_sql req =
     (if book_filter_conditions req \<noteq> [] then
        ''\<newline>'' @
        ''                INNER JOIN (\<newline>'' @
        ''                    SELECT name FROM books\<newline>'' @
        ''                    WHERE '' @ join_str '' AND '' (book_filter_conditions req) @ ''\<newline>'' @
        ''                ) AS boo ON boo.name = e->>'book'\<newline>'' @
        ''                ''
      else [])"

definition example_fetch_sql :: "filter_request \<Rightarrow> string" where
  "example_fetch_sql req =
     ''\<newline>'' @
     ''                (SELECT jsonb_agg(e) FROM (\<newline>'' @
     ''                    SELECT e FROM jsonb_array_elements(examples) AS e\<newline>'' @
     ''                    '' @ books_filter_inner_sql req @ '' -- Use the reusable filter\<newline>'' @
     ''                    LIMIT $'' @ str_nat (examples_limit_pos req) @
                           '' OFFSET $'' @ str_nat (examples_offset_pos req) @ ''\<newline>'' @
     ''                ) AS limited_examples)\<newline>'' @
     ''            ''"

definition total_matching_examples_count_sql :: "filter_request \<Rightarrow> string" where
  "total_matching_examples_count_sql req =
     ''\<newline>'' @
     ''                (SELECT COUNT(*)\<newline>'' @
     ''                FROM jsonb_array_elements(examples) AS e\<newline>'' @
     ''                '' @ books_filter_inner_sql req @ '' -- Use the reusable filter\<newline>'' @
     ''                )\<newline>'' @
     ''            ''"

subsection \<open>The query text and its argument list (lines 213-252)\<close>

definition query_template :: "filter_request \<Rightarrow> string" where
  "query_template req =
     ''\<newline>'' @
     ''                SELECT\<newline>'' @
     ''                    dependent_text, dependent_pos, head_text, head_pos,\<newline>'' @
     ''                    dependency_type,\<newline>'' @
     ''                    '' @ example_fetch_sql req @ '' AS examples,\<newline>'' @
     ''                    mv_token_collocations.frequency, -- KEEP original frequency column\<newline>'' @
     ''                    '' @ total_matching_examples_count_sql req @
                           '' AS example_count, -- NEW column for total examples\<newline>'' @
     ''                    COUNT(*) OVER() AS total_collocations_count -- Renamed for clarity\<newline>'' @
     ''                FROM\<newline>'' @
     ''                    mv_token_collocations\<newline>'' @
     ''                WHERE\<newline>'' @
     ''                    '' @ final_where_sql req @ ''\<newline>'' @
     ''                    AND mv_token_collocations.frequency >= $'' @
                           str_nat (freq_inf_pos req) @ ''\<newline>'' @
     ''                    '' @
        (if freq_sup req \<noteq> None
         then ''AND mv_token_collocations.frequency <= $'' @ str_nat (the (freq_sup_pos req))
         else []) @ ''\<newline>'' @
     ''                ORDER BY\<newline>'' @
     ''                    example_count DESC\<newline>'' @
     ''                LIMIT $'' @ str_nat (results_limit_pos req) @
                       '' OFFSET $'' @ str_nat (results_offset_pos req) @ '';\<newline>'' @
     ''            ''"

definition params :: "filter_request \<Rightarrow> param list" where
  "params req =
     where_params req @
     [PInt (freq_inf req)] @
     (case freq_sup req of None \<Rightarrow> [] | Some v \<Rightarrow> [PInt v]) @
     (if truthy (book_names req) then [PArray (the (book_names req))] else []) @
     (if truthy (book_categories req) then [PArray (the (book_categories req))] else []) @
     (if truthy (book_periods req) then [PArray (the (book_periods req))] else []) @
     (if truthy (book_styles req) then [PArray (the (book_styles req))] else []) @
     [PInt (examples_limit req), PInt (examples_offset req),
      PInt (results_limit req), PInt (results_offset req)]"

subsection \<open>Rows and the response (lines 257-270)\<close>

datatype val = VNull | VInt int | VText string

type_synonym row = "string \<rightharpoonup> val"

datatype py_error = KeyError string

text \<open>
  Lines 262-264: the total is read from the first row (a missing key raises
  \<open>KeyError\<close>), zero for no rows; then \<open>row.pop(..., None)\<close> on every row.
\<close>

definition shape_rows :: "row list \<Rightarrow> py_error + val \<times> row list" where
  "shape_rows collocations =
     (case (case collocations of
              [] \<Rightarrow> Inr (VInt 0)
            | r # _ \<Rightarrow> (case r ''total_collocations_count'' of
                          None \<Rightarrow> Inl (KeyError ''total_collocations_count'')
                        | Some v \<Rightarrow> Inr v)) of
        Inl e \<Rightarrow> Inl e
      | Inr count \<Rightarrow>
          Inr (count, map (\<lambda>r. r(''total_collocations_count'' := None)) collocations))"

subsection \<open>The endpoint with its store and its log (lines 80-88, 254-277)\<close>

text \<open>
  What the code under \<open>try\<close> can raise: a \<open>PostgresError\<close> with its \<open>detail\<close> and
  \<open>message\<close> attributes, or any other exception. \<open>exc_text\<close> is \<open>str(e)\<close>. Both
  attributes may be \<open>None\<close>: the server fills \<open>message\<close> in, an error raised on the client
  side (a connection closed in the middle of the operation) leaves both empty.
\<close>

datatype failure =
    PostgresError (exc_text: string) (pg_detail: "string option") (pg_message: "string option")
  | OtherException (exc_text: string)

text \<open>
  The pool: \<open>acquire\<close> either hands out a connection or raises; \<open>fetch\<close> answers a query
  text and its arguments with rows or raises.
\<close>

record store =
  acquire :: "failure option"
  fetch :: "string \<Rightarrow> param list \<Rightarrow> failure + row list"

datatype event =
    Acquired
  | Released
  | Executed string "param list"
  | LogInfo "param list"
  | LogDebug string
  | LogError string

datatype http_exception = HTTPException (status_code: nat) (detail: string)

record response =
  total_collocations_count :: val
  results :: "row list"

text \<open>
  \<open>e.detail or e.message\<close> as the f-string of line 274 prints it: the detail when it is
  truthy, else the message, and the text \<open>None\<close> when the message is \<open>None\<close>.
\<close>

definition detail_or_message :: "string option \<Rightarrow> string option \<Rightarrow> string" where
  "detail_or_message d m =
     (if truthy d then the d else (case m of None \<Rightarrow> ''None'' | Some t \<Rightarrow> t))"

text \<open>The two \<open>except\<close> clauses of lines 272-277.\<close>

definition handle_failure :: "failure \<Rightarrow> event list \<Rightarrow> (http_exception + response) \<times> event list" where
  "handle_failure e tr =
     (case e of
        PostgresError s d m \<Rightarrow>
          (Inl (HTTPException 500 (''Database error: '' @ detail_or_message d m)),
           tr @ [LogError (''Database error: '' @ s)])
      | OtherException s \<Rightarrow>
          (Inl (HTTPException 500 ''Internal Server Error''),
           tr @ [LogError (''An unexpected error occurred: '' @ s)]))"

definition search_dependencies ::
    "store \<Rightarrow> filter_request \<Rightarrow> (http_exception + response) \<times> event list" where
  "search_dependencies st req =
     (if \<not> truthy (head_text req) \<and> \<not> truthy (dpdt_text req) then
        (Inl (HTTPException 400
                ''At least one of 'head_text' or 'dpdt_text' must be provided.''), [])
      else
        (case acquire st of
           Some e \<Rightarrow> handle_failure e []
         | None \<Rightarrow>
             (let tr = [Acquired, LogInfo (params req), LogDebug (query_template req),
                        Executed (query_template req) (params req)]
              in case fetch st (query_template req) (params req) of
                   Inl e \<Rightarrow> handle_failure e (tr @ [Released])
                 | Inr rows \<Rightarrow>
                     (case shape_rows rows of
                        Inl (KeyError k) \<Rightarrow>
                          handle_failure (OtherException ([CHR 0x27] @ k @ [CHR 0x27]))
                            (tr @ [Released])
                      | Inr (count, stripped) \<Rightarrow>
                          (Inr \<lparr>total_collocations_count = count, results = stripped\<rparr>,
                           tr @ [Released])))))"

subsection \<open>Auxiliary notions for the statements\<close>

text \<open>
  A text that does not begin with a decimal digit: appended after \<open>$n\<close> it leaves the
  number \<open>n\<close> as it is.
\<close>

definition starts_clean :: "string \<Rightarrow> bool" where
  "starts_clean s = (case s of [] \<Rightarrow> True | c # _ \<Rightarrow> \<not> is_digit c)"

text \<open>The positions of the book-filter parameters that are present, in their order.\<close>

definition book_filter_positions :: "filter_request \<Rightarrow> nat list" where
  "book_filter_positions req =
     List.map_filter id
       [book_names_pos req, categories_pos req, periods_pos req, styles_pos req]"

text \<open>How many of the listed optional parameters are present.\<close>

definition present_count :: "bool list \<Rightarrow> nat" where
  "present_count bs = length (filter (\<lambda>b. b) bs)"

text \<open>The argument list up to the four pagination values.\<close>

definition params_before_pagination :: "filter_request \<Rightarrow> param list" where
  "params_before_pagination req =
     where_params req @
     [PInt (freq_inf req)] @
     (case freq_sup req of None \<Rightarrow> [] | Some v \<Rightarrow> [PInt v]) @
     (if truthy (book_names req) then [PArray (the (book_names req))] else []) @
     (if truthy (book_categories req) then [PArray (the (book_categories req))] else []) @
     (if truthy (book_periods req) then [PArray (the (book_periods req))] else []) @
     (if truthy (book_styles req) then [PArray (the (book_styles req))] else [])"

text \<open>
  A dangling \<open>WHERE AND\<close>: somewhere in the text the keyword \<open>WHERE\<close> is followed, after
  blanks and line breaks only, by \<open>AND\<close>.
\<close>

definition is_space :: "char \<Rightarrow> bool" where
  "is_space c \<longleftrightarrow> c = CHR '' '' \<or> c = CHR ''\<newline>''"

fun dangling_where :: "string \<Rightarrow> bool" where
  "dangling_where [] = False"
| "dangling_where (c # cs) =
     (prefix ''WHERE'' (c # cs) \<and> prefix ''AND'' (dropWhile is_space (drop 5 (c # cs))) \<or>
      dangling_where cs)"

text \<open>A text whose first character is neither a blank nor the \<open>A\<close> of \<open>AND\<close>.\<close>

definition starts_with_operand :: "string \<Rightarrow> bool" where
  "starts_with_operand s =
     (case s of [] \<Rightarrow> False | c # _ \<Rightarrow> \<not> is_space c \<and> c \<noteq> CHR ''A'')"

text \<open>
  The literal text of the f-strings between two interpolations, named after the template
  it belongs to (\<open>bf\<close>: \<open>books_filter_inner_sql\<close>, \<open>ef\<close>: \<open>example_fetch_sql\<close>, \<open>tc\<close>:
  \<open>total_matching_examples_count_sql\<close>, \<open>qt\<close>: \<open>query_template\<close>). The \<open>$\<close> that
  precedes a position is left out of these pieces.
\<close>

definition bf_head :: string where
  "bf_head =
     ''\<newline>'' @
     ''                INNER JOIN (\<newline>'' @
     ''                    SELECT name FROM books\<newline>'' @
     ''                    WHERE ''"

definition bf_tail :: string where
  "bf_tail =
     ''\<newline>'' @
     ''                ) AS boo ON boo.name = e->>'book'\<newline>'' @
     ''                ''"

definition ef_head :: string where
  "ef_head =
     ''\<newline>'' @
     ''                (SELECT jsonb_agg(e) FROM (\<newline>'' @
     ''                    SELECT e FROM jsonb_array_elements(examples) AS e\<newline>'' @
     ''                    ''"

definition ef_limit :: string where
  "ef_limit =
     '' -- Use the reusable filter\<newline>'' @
     ''                    LIMIT ''"

definition sql_offset :: string where
  "sql_offset = '' OFFSET ''"

definition ef_tail :: string where
  "ef_tail =
     ''\<newline>'' @
     ''                ) AS limited_examples)\<newline>'' @
     ''            ''"

definition tc_head :: string where
  "tc_head =
     ''\<newline>'' @
     ''                (SELECT COUNT(*)\<newline>'' @
     ''                FROM jsonb_array_elements(examples) AS e\<newline>'' @
     ''                ''"

definition tc_tail :: string where
  "tc_tail =
     '' -- Use the reusable filter\<newline>'' @
     ''                )\<newline>'' @
     ''            ''"

definition qt_select :: string where
  "qt_select =
     ''\<newline>'' @
     ''                SELECT\<newline>'' @
     ''                    dependent_text, dependent_pos, head_text, head_pos,\<newline>'' @
     ''                    dependency_type,\<newline>'' @
     ''                    ''"

definition qt_examples :: string where
  "qt_examples =
     '' AS examples,\<newline>'' @
     ''                    mv_token_collocations.frequency, -- KEEP original frequency column\<newline>'' @
     ''                    ''"

definition qt_from :: string where
  "qt_from =
     '' AS example_count, -- NEW column for total examples\<newline>'' @
     ''                    COUNT(*) OVER() AS total_collocations_count -- Renamed for clarity\<newline>'' @
     ''                FROM\<newline>'' @
     ''                    mv_token_collocations\<newline>'' @
     ''                WHERE\<newline>'' @
     ''                    ''"

definition qt_freq_inf :: string where
  "qt_freq_inf =
     ''\<newline>'' @
     ''                    AND mv_token_collocations.frequency >= ''"

definition qt_gap :: string where
  "qt_gap =
     ''\<newline>'' @
     ''                    ''"

definition qt_freq_sup :: string where
  "qt_freq_sup = ''AND mv_token_collocations.frequency <= ''"

definition qt_order_gap :: string where
  "qt_order_gap =
     ''\<newline>'' @
     ''                ''"

definition qt_order :: string where
  "qt_order =
     ''ORDER BY\<newline>'' @
     ''                    example_count DESC\<newline>'' @
     ''                LIMIT ''"

definition qt_end :: string where
  "qt_end =
     '';\<newline>'' @
     ''            ''"

subsection \<open>Sample requests, rows and stores\<close>

definition example_request :: filter_request where
  "example_request =
     \<lparr>head_text = Some ''run'', head_pos = None, dpdt_text = None, dpdt_pos = None,
      dep_type = None, freq_inf = 5, freq_sup = None, results_limit = 2, results_offset = 0,
      examples_limit = 5, examples_offset = 0, book_names = Some [''Shiji''],
      book_categories = None, book_periods = None, book_styles = None\<rparr>"

definition full_request :: filter_request where
  "full_request =
     \<lparr>head_text = Some ''run'', head_pos = Some [''VERB''], dpdt_text = Some ''fast'',
      dpdt_pos = Some [''ADV''], dep_type = Some [''advmod''], freq_inf = 2, freq_sup = Some 90,
      results_limit = 8, results_offset = 16, examples_limit = 5, examples_offset = 10,
      book_names = Some [''Shiji''], book_categories = Some [''history''],
      book_periods = Some [''Han''], book_styles = Some [''prose'']\<rparr>"

definition plain_request :: filter_request where
  "plain_request =
     \<lparr>head_text = Some ''run'', head_pos = None, dpdt_text = None, dpdt_pos = None,
      dep_type = None, freq_inf = 5, freq_sup = None, results_limit = 2, results_offset = 0,
      examples_limit = 5, examples_offset = 0, book_names = None,
      book_categories = None, book_periods = None, book_styles = None\<rparr>"

definition empty_request :: filter_request where
  "empty_request =
     \<lparr>head_text = None, head_pos = None, dpdt_text = None, dpdt_pos = None,
      dep_type = None, freq_inf = 1, freq_sup = None, results_limit = 8, results_offset = 0,
      examples_limit = 5, examples_offset = 0, book_names = None,
      book_categories = None, book_periods = None, book_styles = None\<rparr>"

definition example_rows :: "row list" where
  "example_rows =
     [[''head_text'' \<mapsto> VText ''run'', ''example_count'' \<mapsto> VInt 4,
       ''total_collocations_count'' \<mapsto> VInt 3],
      [''head_text'' \<mapsto> VText ''rerun'', ''example_count'' \<mapsto> VInt 1,
       ''total_collocations_count'' \<mapsto> VInt 3]]"

definition answering_store :: store where
  "answering_store = \<lparr>acquire = None, fetch = (\<lambda>q ps. Inr example_rows)\<rparr>"

definition failing_store :: store where
  "failing_store =
     \<lparr>acquire = None,
      fetch = (\<lambda>q ps. Inl (PostgresError ''syntax error at or near AND'' None
                                (Some ''syntax error at or near AND'')))\<rparr>"

definition lost_connection_store :: store where
  "lost_connection_store =
     \<lparr>acquire = None,
      fetch = (\<lambda>q ps. Inl (PostgresError ''connection was closed in the middle of operation''
                                None None))\<rparr>"

definition broken_store :: store where
  "broken_store =
     \<lparr>acquire = Some (OtherException ''connection refused''), fetch = (\<lambda>q ps. Inr [])\<rparr>"

section \<open>Scanning a query text for its placeholders\<close>

lemma is_digit_char_of: "d < 10 \<Longrightarrow> is_digit (digit_char d)"
  by (simp add: is_digit_def digit_char_def)

lemma str_nat_digits: "c \<in> set (str_nat n) \<Longrightarrow> is_digit c"
proof (induction n arbitrary: c rule: str_nat.induct)
  case (1 n)
  show ?case
  proof (cases "n < 10")
    case True
    with "1.prems" show ?thesis
      by (simp add: str_nat.simps [of n] is_digit_char_of)
  next
    case False
    have "n mod 10 < 10" by simp
    then have "is_digit (digit_char (n mod 10))" by (rule is_digit_char_of)
    with False "1.prems" "1.IH" show ?thesis
      by (auto simp add: str_nat.simps [of n])
  qed
qed

lemma str_nat_nonempty: "str_nat n \<noteq> []"
  by (simp add: str_nat.simps [of n])

lemma nat_of_digits_snoc: "nat_of_digits (ds @ [c]) = 10 * nat_of_digits ds + (of_char c - 48)"
  by (simp add: nat_of_digits_def)

lemma nat_of_digits_str_nat: "nat_of_digits (str_nat n) = n"
proof (induction n rule: str_nat.induct)
  case (1 n)
  show ?case
  proof (cases "n < 10")
    case True
    then show ?thesis
      by (simp add: str_nat.simps [of n] nat_of_digits_def digit_char_def)
  next
    case False
    have m: "n mod 10 < 10" by simp
    have "(of_char (digit_char (n mod 10)) :: nat) = 48 + n mod 10"
      using m by (simp add: digit_char_def)
    with False "1.IH" show ?thesis
      by (simp add: str_nat.simps [of n] nat_of_digits_snoc)
  qed
qed

lemma takeWhile_digits_str_nat:
  "starts_clean s \<Longrightarrow> takeWhile is_digit (str_nat n @ s) = str_nat n"
  by (cases s) (auto simp add: starts_clean_def takeWhile_append str_nat_digits)

lemma dropWhile_digits_str_nat:
  "starts_clean s \<Longrightarrow> dropWhile is_digit (str_nat n @ s) = s"
  by (cases s) (auto simp add: starts_clean_def dropWhile_append str_nat_digits)

lemma placeholders_dollar_str_nat:
  "starts_clean s \<Longrightarrow> placeholders (CHR ''$'' # str_nat n @ s) = n # placeholders s"
  by (simp add: placeholders.simps(2) takeWhile_digits_str_nat dropWhile_digits_str_nat
        str_nat_nonempty nat_of_digits_str_nat)

lemma placeholders_no_dollar: "CHR ''$'' \<notin> set s \<Longrightarrow> placeholders s = []"
  by (induction s) (auto simp add: placeholders.simps(2))

lemma takeWhile_clean: "starts_clean s \<Longrightarrow> takeWhile is_digit s = []"
  by (cases s) (auto simp add: starts_clean_def)

lemma dropWhile_clean: "starts_clean s \<Longrightarrow> dropWhile is_digit s = s"
  by (cases s) (auto simp add: starts_clean_def)

lemma placeholders_append:
  "starts_clean b \<Longrightarrow> placeholders (a @ b) = placeholders a @ placeholders b"
proof (induction a rule: placeholders.induct)
  case 1
  then show ?case by simp
next
  case (2 c cs)
  show ?case
  proof (cases "\<forall>x\<in>set cs. is_digit x")
    case True
    then have tw: "takeWhile is_digit (cs @ b) = cs" "dropWhile is_digit (cs @ b) = b"
      "takeWhile is_digit cs = cs" "dropWhile is_digit cs = []"
      using "2.prems" by (simp_all add: takeWhile_append dropWhile_append takeWhile_clean dropWhile_clean)
    show ?thesis
    proof (cases "c = CHR ''$'' \<and> cs \<noteq> []")
      case True
      then show ?thesis by (simp add: placeholders.simps(2) tw)
    next
      case False
      then show ?thesis using "2.IH"(2) "2.prems"
        by (auto simp add: placeholders.simps(2) tw)
    qed
  next
    case False
    then have tw: "takeWhile is_digit (cs @ b) = takeWhile is_digit cs"
      "dropWhile is_digit (cs @ b) = dropWhile is_digit cs @ b"
      by (auto simp add: takeWhile_append dropWhile_append)
    show ?thesis
    proof (cases "c = CHR ''$'' \<and> takeWhile is_digit cs \<noteq> []")
      case True
      then show ?thesis using tw "2.IH"(1) "2.prems" by (simp add: placeholders.simps(2))
    next
      case False
      then show ?thesis using tw "2.IH"(2) "2.prems" by (auto simp add: placeholders.simps(2))
    qed
  qed
qed

lemma starts_clean_append: "starts_clean a \<Longrightarrow> starts_clean b \<Longrightarrow> starts_clean (a @ b)"
  by (cases a) (auto simp add: starts_clean_def)

lemma starts_clean_Cons: "starts_clean (c # s) = (\<not> is_digit c)"
  by (simp add: starts_clean_def)

lemma placeholders_skip: "CHR ''$'' \<notin> set l \<Longrightarrow> placeholders (l @ s) = placeholders s"
  by (induction l) (auto simp add: placeholders.simps(2))

lemma starts_clean_sep: "starts_clean sep \<Longrightarrow> sep \<noteq> [] \<Longrightarrow> starts_clean (sep @ s)"
  by (cases sep) (auto simp add: starts_clean_def)

lemma placeholders_join:
  "CHR ''$'' \<notin> set sep \<Longrightarrow> starts_clean sep \<Longrightarrow> sep \<noteq> [] \<Longrightarrow>
     placeholders (join_str sep xs) = concat (map placeholders xs)"
proof (induction sep xs rule: join_str.induct)
  case (3 sp x y ys)
  have "placeholders (x @ sp @ join_str sp (y # ys))
          = placeholders x @ placeholders (sp @ join_str sp (y # ys))"
    using "3.prems" by (intro placeholders_append starts_clean_sep)
  also have "placeholders (sp @ join_str sp (y # ys)) = placeholders (join_str sp (y # ys))"
    using "3.prems" by (intro placeholders_skip)
  finally show ?case using 3 by simp
qed simp_all


lemma where_clauses_eq:
  "where_clauses req =
     (if truthy (head_text req) then [''head_text LIKE $'' @ str_nat 1] else []) @
     (if truthy (dpdt_text req)
      then [''dependent_text LIKE $'' @ str_nat (1 + of_bool (truthy (head_text req)))] else []) @
     (if truthy (head_pos req)
      then [''head_pos = ANY($'' @
            str_nat (1 + of_bool (truthy (head_text req)) + of_bool (truthy (dpdt_text req))) @
            ''::text[])''] else []) @
     (if truthy (dpdt_pos req)
      then [''dependent_pos = ANY($'' @
            str_nat (1 + of_bool (truthy (head_text req)) + of_bool (truthy (dpdt_text req)) +
                     of_bool (truthy (head_pos req))) @
            ''::text[])''] else []) @
     (if truthy (dep_type req)
      then [''dependency_type = ANY($'' @
            str_nat (1 + of_bool (truthy (head_text req)) + of_bool (truthy (dpdt_text req)) +
                     of_bool (truthy (head_pos req)) + of_bool (truthy (dpdt_pos req))) @
            ''::text[])''] else [])"
  by (simp add: where_clauses_def where_stage_def append_clause_def Let_def)

lemma where_params_eq:
  "where_params req =
     (if truthy (head_text req) then [PText (''%'' @ the (head_text req) @ ''%'')] else []) @
     (if truthy (dpdt_text req) then [PText (''%'' @ the (dpdt_text req) @ ''%'')] else []) @
     (if truthy (head_pos req) then [PArray (the (head_pos req))] else []) @
     (if truthy (dpdt_pos req) then [PArray (the (dpdt_pos req))] else []) @
     (if truthy (dep_type req) then [PArray (the (dep_type req))] else [])"
  by (simp add: where_params_def where_stage_def append_clause_def Let_def)

lemma freq_inf_pos_eq:
  "freq_inf_pos req =
     1 + of_bool (truthy (head_text req)) + of_bool (truthy (dpdt_text req)) +
     of_bool (truthy (head_pos req)) + of_bool (truthy (dpdt_pos req)) +
     of_bool (truthy (dep_type req))"
  by (simp add: freq_inf_pos_def where_stage_def append_clause_def Let_def)


lemma placeholders_char: "c \<noteq> CHR ''$'' \<Longrightarrow> placeholders (c # s) = placeholders s"
  by (simp add: placeholders.simps(2))

lemma placeholders_dollar_end: "placeholders (CHR ''$'' # str_nat n) = [n]"
  using placeholders_dollar_str_nat [of "[]" n] by (simp add: starts_clean_def)

lemmas scan = placeholders_char placeholders_dollar_str_nat placeholders_dollar_end
  starts_clean_Cons is_digit_def

lemma where_clauses_placeholders:
  "map placeholders (where_clauses req) = map (\<lambda>k. [k]) [1..<freq_inf_pos req]"
  unfolding where_clauses_eq freq_inf_pos_eq
  by (simp add: scan)

lemma concat_singletons: "concat (map (\<lambda>k. [k]) xs) = xs"
  by (induction xs) simp_all

lemma final_where_sql_placeholders:
  "placeholders (final_where_sql req) = [1..<freq_inf_pos req]"
  unfolding final_where_sql_def
  by (simp add: placeholders_join starts_clean_Cons is_digit_def where_clauses_placeholders
        concat_singletons)

section \<open>The templates as sequences of pieces\<close>

lemma books_filter_inner_sql_pieces:
  "books_filter_inner_sql req =
     (if book_filter_conditions req \<noteq> []
      then bf_head @ join_str '' AND '' (book_filter_conditions req) @ bf_tail else [])"
  by (simp add: books_filter_inner_sql_def bf_head_def bf_tail_def)

lemma example_fetch_sql_pieces:
  "example_fetch_sql req =
     ef_head @ books_filter_inner_sql req @ ef_limit @
     CHR ''$'' # str_nat (examples_limit_pos req) @ sql_offset @
     CHR ''$'' # str_nat (examples_offset_pos req) @ ef_tail"
  by (simp add: example_fetch_sql_def ef_head_def ef_limit_def sql_offset_def ef_tail_def)

lemma total_matching_examples_count_sql_pieces:
  "total_matching_examples_count_sql req = tc_head @ books_filter_inner_sql req @ tc_tail"
  by (simp add: total_matching_examples_count_sql_def tc_head_def tc_tail_def)

lemma query_template_pieces:
  "query_template req =
     qt_select @ example_fetch_sql req @ qt_examples @
     total_matching_examples_count_sql req @ qt_from @ final_where_sql req @ qt_freq_inf @
     CHR ''$'' # str_nat (freq_inf_pos req) @ qt_gap @
     (if freq_sup req \<noteq> None then qt_freq_sup @ CHR ''$'' # str_nat (the (freq_sup_pos req))
      else []) @
     qt_order_gap @ qt_order @
     CHR ''$'' # str_nat (results_limit_pos req) @ sql_offset @
     CHR ''$'' # str_nat (results_offset_pos req) @ qt_end"
  by (simp add: query_template_def qt_select_def qt_examples_def qt_from_def qt_freq_inf_def
        qt_gap_def qt_freq_sup_def qt_order_gap_def qt_order_def sql_offset_def qt_end_def)

lemma final_where_sql_head:
  assumes "passes_validation req"
  shows "prefix ''head_text LIKE $1'' (final_where_sql req) \<or>
         prefix ''dependent_text LIKE $1'' (final_where_sql req)"
proof -
  have "str_nat 1 = ''1''" by code_simp
  then have one: "str_nat (Suc 0) = ''1''" by simp
  have j: "\<And>x xs. \<exists>r. join_str '' AND '' (x # xs) = x @ r"
    subgoal for x xs by (cases xs) simp_all
    done
  show ?thesis
  proof (cases "truthy (head_text req)")
    case True
    then obtain xs where "where_clauses req = (''head_text LIKE $'' @ str_nat 1) # xs"
      unfolding where_clauses_eq by simp
    then show ?thesis
      using j [of "''head_text LIKE $'' @ str_nat 1" xs]
      by (auto simp add: final_where_sql_def one)
  next
    case False
    with assms have d: "truthy (dpdt_text req)" by (simp add: passes_validation_def)
    from False d obtain xs where
      "where_clauses req = (''dependent_text LIKE $'' @ str_nat 1) # xs"
      unfolding where_clauses_eq by simp
    then show ?thesis
      using j [of "''dependent_text LIKE $'' @ str_nat 1" xs]
      by (auto simp add: final_where_sql_def one)
  qed
qed

lemmas piece_defs = bf_head_def bf_tail_def ef_head_def ef_limit_def sql_offset_def ef_tail_def
  tc_head_def tc_tail_def qt_select_def qt_examples_def qt_from_def qt_freq_inf_def qt_gap_def
  qt_freq_sup_def qt_order_gap_def qt_order_def qt_end_def

lemma pieces_no_dollar:
  "CHR ''$'' \<notin> set bf_head" "CHR ''$'' \<notin> set bf_tail" "CHR ''$'' \<notin> set ef_head"
  "CHR ''$'' \<notin> set ef_limit" "CHR ''$'' \<notin> set sql_offset" "CHR ''$'' \<notin> set ef_tail"
  "CHR ''$'' \<notin> set tc_head" "CHR ''$'' \<notin> set tc_tail" "CHR ''$'' \<notin> set qt_select"
  "CHR ''$'' \<notin> set qt_examples" "CHR ''$'' \<notin> set qt_from" "CHR ''$'' \<notin> set qt_freq_inf"
  "CHR ''$'' \<notin> set qt_gap" "CHR ''$'' \<notin> set qt_freq_sup" "CHR ''$'' \<notin> set qt_order_gap"
  "CHR ''$'' \<notin> set qt_order" "CHR ''$'' \<notin> set qt_end"
  by (simp_all add: piece_defs)

lemma pieces_placeholders:
  "placeholders bf_head = []" "placeholders bf_tail = []" "placeholders ef_head = []"
  "placeholders ef_limit = []" "placeholders sql_offset = []" "placeholders ef_tail = []"
  "placeholders tc_head = []" "placeholders tc_tail = []" "placeholders qt_select = []"
  "placeholders qt_examples = []" "placeholders qt_from = []" "placeholders qt_freq_inf = []"
  "placeholders qt_gap = []" "placeholders qt_freq_sup = []" "placeholders qt_order_gap = []"
  "placeholders qt_order = []" "placeholders qt_end = []"
  by (simp_all add: placeholders_no_dollar pieces_no_dollar)

lemma pieces_clean:
  "starts_clean bf_head" "starts_clean bf_tail" "starts_clean ef_head"
  "starts_clean ef_limit" "starts_clean sql_offset" "starts_clean ef_tail"
  "starts_clean tc_head" "starts_clean tc_tail" "starts_clean qt_select"
  "starts_clean qt_examples" "starts_clean qt_from" "starts_clean qt_freq_inf"
  "starts_clean qt_gap" "starts_clean qt_freq_sup" "starts_clean qt_order_gap"
  "starts_clean qt_order" "starts_clean qt_end"
  by (simp_all add: piece_defs starts_clean_def is_digit_def)

lemma pieces_nonempty:
  "bf_head \<noteq> []" "bf_tail \<noteq> []" "ef_head \<noteq> []"
  "ef_limit \<noteq> []" "sql_offset \<noteq> []" "ef_tail \<noteq> []"
  "tc_head \<noteq> []" "tc_tail \<noteq> []" "qt_select \<noteq> []"
  "qt_examples \<noteq> []" "qt_from \<noteq> []" "qt_freq_inf \<noteq> []"
  "qt_gap \<noteq> []" "qt_freq_sup \<noteq> []" "qt_order_gap \<noteq> []"
  "qt_order \<noteq> []" "qt_end \<noteq> []"
  by (simp_all add: piece_defs)

lemma starts_clean_Nil: "starts_clean []"
  by (simp add: starts_clean_def)

lemma starts_clean_piece: "starts_clean p \<Longrightarrow> p \<noteq> [] \<Longrightarrow> starts_clean (p @ s)"
  by (rule starts_clean_sep)

lemmas compose = placeholders_append placeholders_dollar_str_nat placeholders_dollar_end
  pieces_placeholders starts_clean_append pieces_clean starts_clean_Cons starts_clean_Nil
  starts_clean_sep pieces_nonempty

lemma dollar_not_digit: "\<not> is_digit CHR ''$''"
  by (simp add: is_digit_def)

lemma book_filter_conditions_placeholders:
  "map placeholders (book_filter_conditions req) =
     map (\<lambda>k. [k]) (book_filter_positions req)"
  by (simp add: book_filter_conditions_def book_filter_positions_def book_names_pos_def
        categories_pos_def periods_pos_def styles_pos_def List.map_filter_simps scan)

lemma book_filter_conditions_empty:
  "book_filter_conditions req = [] \<longleftrightarrow> book_filter_positions req = []"
  by (simp add: book_filter_conditions_def book_filter_positions_def book_names_pos_def
        categories_pos_def periods_pos_def styles_pos_def List.map_filter_simps)

lemma starts_clean_join:
  "starts_clean sep \<Longrightarrow> \<forall>x\<in>set xs. starts_clean x \<Longrightarrow> starts_clean (join_str sep xs)"
  by (induction sep xs rule: join_str.induct) (simp_all add: starts_clean_Nil starts_clean_append)

lemma book_filter_conditions_clean: "\<forall>x\<in>set (book_filter_conditions req). starts_clean x"
  by (auto simp add: book_filter_conditions_def starts_clean_Cons is_digit_def)

lemma where_clauses_clean: "\<forall>x\<in>set (where_clauses req). starts_clean x"
  unfolding where_clauses_eq by (auto simp add: starts_clean_Cons is_digit_def)

lemma and_clean: "starts_clean '' AND ''"
  by (simp add: starts_clean_Cons is_digit_def)

lemma final_where_sql_clean: "starts_clean (final_where_sql req)"
  unfolding final_where_sql_def by (intro starts_clean_join and_clean where_clauses_clean)

lemma book_join_clean: "starts_clean (join_str '' AND '' (book_filter_conditions req))"
  by (intro starts_clean_join and_clean book_filter_conditions_clean)

lemma books_filter_inner_sql_placeholders:
  "placeholders (books_filter_inner_sql req) = book_filter_positions req"
proof (cases "book_filter_conditions req = []")
  case True
  then show ?thesis
    by (simp add: books_filter_inner_sql_pieces book_filter_conditions_empty)
next
  case False
  have "placeholders (join_str '' AND '' (book_filter_conditions req)) =
          book_filter_positions req"
    by (simp add: placeholders_join starts_clean_Cons is_digit_def
          book_filter_conditions_placeholders concat_singletons)
  with False show ?thesis
    by (simp add: books_filter_inner_sql_pieces compose book_join_clean)
qed

lemma books_filter_inner_sql_clean: "starts_clean (books_filter_inner_sql req)"
  by (simp add: books_filter_inner_sql_pieces compose)

lemma example_fetch_sql_placeholders:
  "placeholders (example_fetch_sql req) =
     book_filter_positions req @ [examples_limit_pos req, examples_offset_pos req]"
  by (simp add: example_fetch_sql_pieces compose dollar_not_digit
        books_filter_inner_sql_placeholders books_filter_inner_sql_clean)

lemma total_matching_examples_count_sql_placeholders:
  "placeholders (total_matching_examples_count_sql req) = book_filter_positions req"
  by (simp add: total_matching_examples_count_sql_pieces compose
        books_filter_inner_sql_placeholders books_filter_inner_sql_clean)


lemma query_template_placeholders:
  "placeholders (query_template req) =
     book_filter_positions req @ [examples_limit_pos req, examples_offset_pos req] @
     book_filter_positions req @
     [1..<freq_inf_pos req] @ [freq_inf_pos req] @
     (case freq_sup_pos req of None \<Rightarrow> [] | Some k \<Rightarrow> [k]) @
     [results_limit_pos req, results_offset_pos req]"
  by (simp add: query_template_pieces compose dollar_not_digit final_where_sql_clean
        final_where_sql_placeholders example_fetch_sql_placeholders
        total_matching_examples_count_sql_placeholders freq_sup_pos_def
        example_fetch_sql_pieces total_matching_examples_count_sql_pieces
        books_filter_inner_sql_placeholders books_filter_inner_sql_clean)

section \<open>Positions\<close>

lemma book_filter_positions_upt:
  "book_filter_positions req = [counter_after_freq req..<examples_limit_pos req]"
  by (simp add: book_filter_positions_def book_names_pos_def categories_pos_def periods_pos_def
        styles_pos_def examples_limit_pos_def counter_after_styles_def counter_after_periods_def
        counter_after_categories_def counter_after_names_def List.map_filter_simps
        upt_rec [of "counter_after_freq req"] upt_rec [of "Suc (counter_after_freq req)"]
        upt_rec [of "Suc (Suc (counter_after_freq req))"]
        upt_rec [of "Suc (Suc (Suc (counter_after_freq req)))"])

lemma freq_positions_upt:
  "[freq_inf_pos req] @ (case freq_sup_pos req of None \<Rightarrow> [] | Some k \<Rightarrow> [k]) =
     [freq_inf_pos req..<counter_after_freq req]"
  by (simp add: freq_sup_pos_def counter_after_freq_def upt_rec [of "freq_inf_pos req"]
        upt_rec [of "Suc (freq_inf_pos req)"])

lemma freq_inf_pos_ge: "1 \<le> freq_inf_pos req"
  by (simp add: freq_inf_pos_eq)

lemma counter_after_freq_gt: "freq_inf_pos req < counter_after_freq req"
  by (simp add: counter_after_freq_def)

lemma examples_limit_pos_ge: "counter_after_freq req \<le> examples_limit_pos req"
  by (simp add: examples_limit_pos_def counter_after_styles_def counter_after_periods_def
        counter_after_categories_def counter_after_names_def)

lemma later_positions:
  "examples_offset_pos req = examples_limit_pos req + 1"
  "results_limit_pos req = examples_limit_pos req + 2"
  "results_offset_pos req = examples_limit_pos req + 3"
  by (simp_all add: examples_offset_pos_def results_limit_pos_def results_offset_pos_def
        examples_limit_pos_def)

lemma length_where_params: "length (where_params req) + 1 = freq_inf_pos req"
  by (simp add: where_params_eq freq_inf_pos_eq)

lemma length_params: "length (params req) = results_offset_pos req"
proof -
  have b: "length (book_filter_positions req) =
             length ((if truthy (book_names req) then [PArray (the (book_names req))] else []) @
              (if truthy (book_categories req) then [PArray (the (book_categories req))] else []) @
              (if truthy (book_periods req) then [PArray (the (book_periods req))] else []) @
              (if truthy (book_styles req) then [PArray (the (book_styles req))] else []))"
    by (simp add: book_filter_positions_def book_names_pos_def categories_pos_def
          periods_pos_def styles_pos_def List.map_filter_simps)
  have f: "length (case freq_sup req of None \<Rightarrow> [] | Some v \<Rightarrow> [PInt v]) + freq_inf_pos req + 1
             = counter_after_freq req"
    by (simp add: counter_after_freq_def split: option.splits)
  have "length (book_filter_positions req) = examples_limit_pos req - counter_after_freq req"
    by (simp add: book_filter_positions_upt)
  with b f length_where_params [of req] examples_limit_pos_ge [of req] show ?thesis
    by (simp add: params_def later_positions)
qed


lemma query_template_placeholders_upt:
  "placeholders (query_template req) =
     [counter_after_freq req..<examples_limit_pos req] @
     [examples_limit_pos req, examples_limit_pos req + 1] @
     [counter_after_freq req..<examples_limit_pos req] @
     [1..<freq_inf_pos req] @ [freq_inf_pos req..<counter_after_freq req] @
     [examples_limit_pos req + 2, examples_limit_pos req + 3]"
  using freq_positions_upt [of req]
  by (simp add: query_template_placeholders book_filter_positions_upt later_positions)


lemma example_request_positions:
  "freq_inf_pos example_request = 2" "counter_after_freq example_request = 3"
  "examples_limit_pos example_request = 4" "freq_sup_pos example_request = None"
  "book_filter_positions example_request = [3]"
  by (simp_all add: freq_inf_pos_eq counter_after_freq_def examples_limit_pos_def
        counter_after_styles_def counter_after_periods_def counter_after_categories_def
        counter_after_names_def freq_sup_pos_def book_filter_positions_def book_names_pos_def
        categories_pos_def periods_pos_def styles_pos_def List.map_filter_simps
        example_request_def truthy_def)

lemma example_request_params:
  "params example_request =
     [PText ''%run%'', PInt 5, PArray [''Shiji''], PInt 5, PInt 0, PInt 2, PInt 0]"
  by (simp add: params_def where_params_eq example_request_def truthy_def)


section \<open>Validation, response shaping and failures\<close>

text \<open>
  Claim C7. A request in which both \<open>head_text\<close> and \<open>dpdt_text\<close> are absent (or empty,
  which the test of line 81 treats alike) is answered with the HTTP 400 exception, whatever
  the store is, and the trace of the call is empty: no connection was acquired and no query
  was executed.
\<close>

theorem rejects_without_text_filter:
  assumes "\<not> truthy (head_text req)" and "\<not> truthy (dpdt_text req)"
  shows "search_dependencies st req =
           (Inl (HTTPException 400
                   ''At least one of 'head_text' or 'dpdt_text' must be provided.''), [])"
  using assms by (simp add: search_dependencies_def)

theorem rejects_without_text_filter_witness:
  "\<not> truthy (head_text empty_request) \<and> \<not> truthy (dpdt_text empty_request) \<and>
   search_dependencies answering_store empty_request =
     (Inl (HTTPException 400
             ''At least one of 'head_text' or 'dpdt_text' must be provided.''), [])"
proof -
  have h: "\<not> truthy (head_text empty_request)" and d: "\<not> truthy (dpdt_text empty_request)"
    by (simp_all add: empty_request_def truthy_def)
  from rejects_without_text_filter [OF h d, of answering_store] h d show ?thesis by simp
qed

lemma shape_rows_ok:
  assumes "rows \<noteq> [] \<longrightarrow> hd rows ''total_collocations_count'' \<noteq> None"
  shows "shape_rows rows =
           Inr (if rows = [] then VInt 0 else the (hd rows ''total_collocations_count''),
                map (\<lambda>r. r(''total_collocations_count'' := None)) rows)"
  using assms by (cases rows) (auto simp add: shape_rows_def)

lemma example_request_valid: "passes_validation example_request"
  by (simp add: passes_validation_def example_request_def truthy_def)

lemma sample_requests_in_bounds:
  "in_bounds example_request" "in_bounds full_request" "in_bounds plain_request"
  by (simp_all add: in_bounds_def example_request_def full_request_def plain_request_def)

text \<open>
  Claim C6. When the query execution returns the rows \<open>rows\<close> (each row of this query
  carries the column \<open>total_collocations_count\<close>; only the first row is read), the endpoint
  returns a record whose total is the value of that column in the first row, or zero
  when there is no row, and whose results are the rows in the order of the store, each
  with that one field removed and nothing else changed; the field occurs in no emitted row.
\<close>

theorem shaped_response:
  assumes "passes_validation req" and "acquire st = None"
    and "fetch st (query_template req) (params req) = Inr rows"
    and "rows \<noteq> [] \<longrightarrow> hd rows ''total_collocations_count'' \<noteq> None"
  shows "\<exists>resp. fst (search_dependencies st req) = Inr resp \<and>
           total_collocations_count resp =
             (if rows = [] then VInt 0 else the (hd rows ''total_collocations_count'')) \<and>
           results resp = map (\<lambda>r. r(''total_collocations_count'' := None)) rows \<and>
           (\<forall>r\<in>set (results resp). ''total_collocations_count'' \<notin> dom r)"
  using assms(1-3) shape_rows_ok [OF assms(4)]
  by (auto simp add: search_dependencies_def passes_validation_def Let_def)

theorem shaped_response_witness:
  "passes_validation example_request \<and> acquire answering_store = None \<and>
   fetch answering_store (query_template example_request) (params example_request)
     = Inr example_rows \<and>
   (\<exists>resp. fst (search_dependencies answering_store example_request) = Inr resp \<and>
      total_collocations_count resp = VInt 3 \<and>
      results resp =
        [[''head_text'' \<mapsto> VText ''run'', ''example_count'' \<mapsto> VInt 4],
         [''head_text'' \<mapsto> VText ''rerun'', ''example_count'' \<mapsto> VInt 1]])"
proof -
  note v = example_request_valid
  have a: "acquire answering_store = None" by (simp add: answering_store_def)
  have f: "fetch answering_store (query_template example_request) (params example_request)
             = Inr example_rows"
    by (simp add: answering_store_def)
  have k: "example_rows \<noteq> [] \<longrightarrow> hd example_rows ''total_collocations_count'' \<noteq> None"
    by (simp add: example_rows_def)
  from shaped_response [OF v a f k] obtain resp where
    r: "fst (search_dependencies answering_store example_request) = Inr resp"
       "total_collocations_count resp =
          (if example_rows = [] then VInt 0
           else the (hd example_rows ''total_collocations_count''))"
       "results resp = map (\<lambda>r. r(''total_collocations_count'' := None)) example_rows"
    by blast
  have t: "total_collocations_count resp = VInt 3"
    using r(2) by (simp add: example_rows_def)
  have "results resp =
        [[''head_text'' \<mapsto> VText ''run'', ''example_count'' \<mapsto> VInt 4],
         [''head_text'' \<mapsto> VText ''rerun'', ''example_count'' \<mapsto> VInt 1]]"
    using r(3) by (simp add: example_rows_def)
  with r(1) t v a f show ?thesis by blast
qed

text \<open>
  Claim C9, as the code has it. A failure \<open>e\<close> raised when the connection is acquired or
  when the query is executed is answered with HTTP 500, and the last line of the log is
  the error line with \<open>str(e)\<close>. The message sent to the caller is the generic
  \<open>Internal Server Error\<close> unless \<open>e\<close> is a \<open>PostgresError\<close>: then it is
  \<open>Database error: \<close> followed by the error's detail when that is a non-empty text,
  otherwise by its message, and by the text \<open>None\<close> when the message is \<open>None\<close> too.
\<close>

theorem store_failure_response:
  assumes "passes_validation req"
    and "acquire st = Some e \<or>
         (acquire st = None \<and> fetch st (query_template req) (params req) = Inl e)"
  shows "fst (search_dependencies st req) =
           Inl (HTTPException 500
                  (case e of
                     PostgresError s d m \<Rightarrow>
                       ''Database error: '' @
                       (case d of
                          Some (c # cs) \<Rightarrow> c # cs
                        | _ \<Rightarrow> (case m of None \<Rightarrow> ''None'' | Some t \<Rightarrow> t))
                   | OtherException s \<Rightarrow> ''Internal Server Error'')) \<and>
         last (snd (search_dependencies st req)) =
           LogError ((case e of
                        PostgresError s d m \<Rightarrow> ''Database error: ''
                      | OtherException s \<Rightarrow> ''An unexpected error occurred: '') @ exc_text e)"
  using assms
  by (cases e)
     (auto simp add: search_dependencies_def passes_validation_def handle_failure_def Let_def
        detail_or_message_def truthy_def split: option.splits list.splits)

theorem store_failure_response_witness:
  "passes_validation example_request \<and>
   acquire broken_store = Some (OtherException ''connection refused'') \<and>
   fst (search_dependencies broken_store example_request) =
     Inl (HTTPException 500 ''Internal Server Error'') \<and>
   last (snd (search_dependencies broken_store example_request)) =
     LogError ''An unexpected error occurred: connection refused'' \<and>
   acquire failing_store = None \<and>
   fetch failing_store (query_template example_request) (params example_request) =
     Inl (PostgresError ''syntax error at or near AND'' None
            (Some ''syntax error at or near AND'')) \<and>
   fst (search_dependencies failing_store example_request) =
     Inl (HTTPException 500 ''Database error: syntax error at or near AND'') \<and>
   last (snd (search_dependencies failing_store example_request)) =
     LogError ''Database error: syntax error at or near AND'' \<and>
   acquire lost_connection_store = None \<and>
   fetch lost_connection_store (query_template example_request) (params example_request) =
     Inl (PostgresError ''connection was closed in the middle of operation'' None None) \<and>
   fst (search_dependencies lost_connection_store example_request) =
     Inl (HTTPException 500 ''Database error: None'') \<and>
   last (snd (search_dependencies lost_connection_store example_request)) =
     LogError ''Database error: connection was closed in the middle of operation''"
proof -
  note v = example_request_valid
  have a: "acquire broken_store = Some (OtherException ''connection refused'')"
    by (simp add: broken_store_def)
  have b: "acquire failing_store = None \<and>
    fetch failing_store (query_template example_request) (params example_request) =
      Inl (PostgresError ''syntax error at or near AND'' None
             (Some ''syntax error at or near AND''))"
    by (simp add: failing_store_def)
  have c: "acquire lost_connection_store = None \<and>
    fetch lost_connection_store (query_template example_request) (params example_request) =
      Inl (PostgresError ''connection was closed in the middle of operation'' None None)"
    by (simp add: lost_connection_store_def)
  from store_failure_response [OF v disjI1, OF a] store_failure_response [OF v disjI2, OF b]
    store_failure_response [OF v disjI2, OF c] v a b c
  show ?thesis by simp
qed

text \<open>
  Claim C9, as the specification words it, fails: when the store raises a
  \<open>PostgresError\<close> whose message is \<open>syntax error at or near AND\<close>, the caller receives
  that message in the body of the HTTP 500 answer, not the generic one.
\<close>

theorem database_text_reaches_caller:
  "fst (search_dependencies failing_store example_request) =
     Inl (HTTPException 500 ''Database error: syntax error at or near AND'') \<and>
   fst (search_dependencies failing_store example_request) \<noteq>
     Inl (HTTPException 500 ''Internal Server Error'')"
  by (simp add: search_dependencies_def failing_store_def example_request_def truthy_def
        handle_failure_def detail_or_message_def Let_def)

section \<open>Placeholders and bound parameters\<close>




section \<open>Order of the parameters\<close>

lemmas position_defs = freq_sup_pos_def counter_after_freq_def book_names_pos_def
  counter_after_names_def categories_pos_def counter_after_categories_def periods_pos_def
  counter_after_periods_def styles_pos_def counter_after_styles_def examples_limit_pos_def
  examples_offset_pos_def results_limit_pos_def results_offset_pos_def

lemma freq_inf_pos_where: "freq_inf_pos req = length (where_params req) + 1"
  using length_where_params [of req] by simp

lemma length_where_clauses: "length (where_clauses req) = length (where_params req)"
  by (simp add: where_clauses_eq where_params_eq)

lemma params_at_freq:
  "params req ! (freq_inf_pos req - 1) = PInt (freq_inf req)"
  "freq_sup_pos req = Some k \<Longrightarrow> params req ! (k - 1) = PInt (the (freq_sup req))"
  by (auto simp add: params_def freq_inf_pos_where position_defs nth_append split: if_splits)

lemma params_at_books:
  "book_names_pos req = Some k \<Longrightarrow> params req ! (k - 1) = PArray (the (book_names req))"
  "categories_pos req = Some k \<Longrightarrow> params req ! (k - 1) = PArray (the (book_categories req))"
  "periods_pos req = Some k \<Longrightarrow> params req ! (k - 1) = PArray (the (book_periods req))"
  "styles_pos req = Some k \<Longrightarrow> params req ! (k - 1) = PArray (the (book_styles req))"
  by (auto simp add: params_def freq_inf_pos_where position_defs nth_append split: if_splits)

lemma params_at_pagination:
  "params req ! (examples_limit_pos req - 1) = PInt (examples_limit req)"
  "params req ! (examples_offset_pos req - 1) = PInt (examples_offset req)"
  "params req ! (results_limit_pos req - 1) = PInt (results_limit req)"
  "params req ! (results_offset_pos req - 1) = PInt (results_offset req)"
  by (auto simp add: params_def freq_inf_pos_where position_defs nth_append)

lemma where_clause_at:
  "truthy (head_text req) \<Longrightarrow>
     where_clauses req ! 0 = ''head_text LIKE $'' @ str_nat 1 \<and>
     params req ! 0 = PText (''%'' @ the (head_text req) @ ''%'')"
  "truthy (dpdt_text req) \<Longrightarrow>
     where_clauses req ! present_count [truthy (head_text req)] =
       ''dependent_text LIKE $'' @ str_nat (present_count [truthy (head_text req)] + 1) \<and>
     params req ! present_count [truthy (head_text req)] =
       PText (''%'' @ the (dpdt_text req) @ ''%'')"
  "truthy (head_pos req) \<Longrightarrow>
     where_clauses req ! present_count [truthy (head_text req), truthy (dpdt_text req)] =
       ''head_pos = ANY($'' @
       str_nat (present_count [truthy (head_text req), truthy (dpdt_text req)] + 1) @
       ''::text[])'' \<and>
     params req ! present_count [truthy (head_text req), truthy (dpdt_text req)] =
       PArray (the (head_pos req))"
  "truthy (dpdt_pos req) \<Longrightarrow>
     where_clauses req !
       present_count [truthy (head_text req), truthy (dpdt_text req), truthy (head_pos req)] =
       ''dependent_pos = ANY($'' @
       str_nat (present_count [truthy (head_text req), truthy (dpdt_text req),
                               truthy (head_pos req)] + 1) @
       ''::text[])'' \<and>
     params req !
       present_count [truthy (head_text req), truthy (dpdt_text req), truthy (head_pos req)] =
       PArray (the (dpdt_pos req))"
  "truthy (dep_type req) \<Longrightarrow>
     where_clauses req !
       present_count [truthy (head_text req), truthy (dpdt_text req), truthy (head_pos req),
                      truthy (dpdt_pos req)] =
       ''dependency_type = ANY($'' @
       str_nat (present_count [truthy (head_text req), truthy (dpdt_text req),
                               truthy (head_pos req), truthy (dpdt_pos req)] + 1) @
       ''::text[])'' \<and>
     params req !
       present_count [truthy (head_text req), truthy (dpdt_text req), truthy (head_pos req),
                      truthy (dpdt_pos req)] =
       PArray (the (dep_type req))"
  by (simp_all add: where_clauses_eq params_def where_params_eq present_count_def nth_append)

lemma positions_explicit:
  "length (where_clauses req) =
     present_count [truthy (head_text req), truthy (dpdt_text req), truthy (head_pos req),
                    truthy (dpdt_pos req), truthy (dep_type req)]"
  "freq_inf_pos req = length (where_clauses req) + 1"
  "freq_sup_pos req =
     (if freq_sup req \<noteq> None then Some (length (where_clauses req) + 2) else None)"
  "book_names_pos req =
     (if truthy (book_names req)
      then Some (length (where_clauses req) + 2 + present_count [freq_sup req \<noteq> None])
      else None)"
  "categories_pos req =
     (if truthy (book_categories req)
      then Some (length (where_clauses req) + 2 +
                 present_count [freq_sup req \<noteq> None, truthy (book_names req)])
      else None)"
  "periods_pos req =
     (if truthy (book_periods req)
      then Some (length (where_clauses req) + 2 +
                 present_count [freq_sup req \<noteq> None, truthy (book_names req),
                                truthy (book_categories req)])
      else None)"
  "styles_pos req =
     (if truthy (book_styles req)
      then Some (length (where_clauses req) + 2 +
                 present_count [freq_sup req \<noteq> None, truthy (book_names req),
                                truthy (book_categories req), truthy (book_periods req)])
      else None)"
  "examples_limit_pos req =
     length (where_clauses req) + 2 +
     present_count [freq_sup req \<noteq> None, truthy (book_names req),
                    truthy (book_categories req), truthy (book_periods req),
                    truthy (book_styles req)]"
  by (simp_all add: length_where_clauses freq_inf_pos_where position_defs present_count_def
        where_params_eq)

lemma str_nat_small:
  "str_nat 1 = ''1''" "str_nat 2 = ''2''" "str_nat 3 = ''3''" "str_nat 4 = ''4''"
  "str_nat 5 = ''5''" "str_nat (Suc 0) = ''1''" "str_nat (Suc (Suc 0)) = ''2''"
  by code_simp+

lemma full_request_present:
  "truthy (head_text full_request)" "truthy (dpdt_text full_request)"
  "truthy (head_pos full_request)" "truthy (dpdt_pos full_request)"
  "truthy (dep_type full_request)" "freq_sup full_request \<noteq> None"
  "truthy (book_names full_request)" "truthy (book_categories full_request)"
  "truthy (book_periods full_request)" "truthy (book_styles full_request)"
  by (simp_all add: full_request_def truthy_def)

lemma full_request_fields:
  "the (head_text full_request) = ''run''" "the (dpdt_text full_request) = ''fast''"
  "the (head_pos full_request) = [''VERB'']" "the (dpdt_pos full_request) = [''ADV'']"
  "the (dep_type full_request) = [''advmod'']" "the (freq_sup full_request) = 90"
  "the (book_names full_request) = [''Shiji'']"
  "the (book_categories full_request) = [''history'']"
  "the (book_periods full_request) = [''Han'']" "the (book_styles full_request) = [''prose'']"
  "freq_inf full_request = 2" "examples_limit full_request = 5"
  "examples_offset full_request = 10" "results_limit full_request = 8"
  "results_offset full_request = 16"
  by (simp_all add: full_request_def)

lemma present_count_all:
  "present_count [True] = 1" "present_count [True, True] = 2"
  "present_count [True, True, True] = 3" "present_count [True, True, True, True] = 4"
  "present_count [True, True, True, True, True] = 5"
  by (simp_all add: present_count_def)

section \<open>Example pagination\<close>

lemma where_stage_frame:
  "where_stage (req\<lparr>examples_limit := a, examples_offset := b\<rparr>) = where_stage req"
  by (simp add: where_stage_def Let_def cong: if_cong)

lemma positions_frame:
  "freq_inf_pos (req\<lparr>examples_limit := a, examples_offset := b\<rparr>) = freq_inf_pos req"
  "freq_sup_pos (req\<lparr>examples_limit := a, examples_offset := b\<rparr>) = freq_sup_pos req"
  "book_names_pos (req\<lparr>examples_limit := a, examples_offset := b\<rparr>) = book_names_pos req"
  "categories_pos (req\<lparr>examples_limit := a, examples_offset := b\<rparr>) = categories_pos req"
  "periods_pos (req\<lparr>examples_limit := a, examples_offset := b\<rparr>) = periods_pos req"
  "styles_pos (req\<lparr>examples_limit := a, examples_offset := b\<rparr>) = styles_pos req"
  "examples_limit_pos (req\<lparr>examples_limit := a, examples_offset := b\<rparr>)
     = examples_limit_pos req"
  "examples_offset_pos (req\<lparr>examples_limit := a, examples_offset := b\<rparr>)
     = examples_offset_pos req"
  "results_limit_pos (req\<lparr>examples_limit := a, examples_offset := b\<rparr>)
     = results_limit_pos req"
  "results_offset_pos (req\<lparr>examples_limit := a, examples_offset := b\<rparr>)
     = results_offset_pos req"
  by (simp_all add: freq_inf_pos_def where_stage_frame position_defs)

lemma where_frame:
  "where_clauses (req\<lparr>examples_limit := a, examples_offset := b\<rparr>) = where_clauses req"
  "where_params (req\<lparr>examples_limit := a, examples_offset := b\<rparr>) = where_params req"
  "final_where_sql (req\<lparr>examples_limit := a, examples_offset := b\<rparr>) = final_where_sql req"
  by (simp_all add: where_clauses_def where_params_def final_where_sql_def where_stage_frame)

lemma books_filter_frame:
  "books_filter_inner_sql (req\<lparr>examples_limit := a, examples_offset := b\<rparr>)
     = books_filter_inner_sql req"
  by (simp add: books_filter_inner_sql_pieces book_filter_conditions_def positions_frame)

lemma subqueries_frame:
  "example_fetch_sql (req\<lparr>examples_limit := a, examples_offset := b\<rparr>)
     = example_fetch_sql req"
  "total_matching_examples_count_sql (req\<lparr>examples_limit := a, examples_offset := b\<rparr>)
     = total_matching_examples_count_sql req"
  by (simp_all add: example_fetch_sql_pieces total_matching_examples_count_sql_pieces
        books_filter_frame positions_frame)

lemma query_template_frame:
  "query_template (req\<lparr>examples_limit := a, examples_offset := b\<rparr>) = query_template req"
  by (simp add: query_template_pieces subqueries_frame where_frame positions_frame)

lemma params_split:
  "params req =
     params_before_pagination req @
     [PInt (examples_limit req), PInt (examples_offset req),
      PInt (results_limit req), PInt (results_offset req)]"
  by (simp add: params_def params_before_pagination_def)

lemma length_params_before_pagination:
  "length (params_before_pagination req) + 1 = examples_limit_pos req"
  using length_params [of req] by (simp add: params_split later_positions)

lemma params_before_pagination_frame:
  "params_before_pagination (req\<lparr>examples_limit := a, examples_offset := b\<rparr>)
     = params_before_pagination req"
  by (simp add: params_before_pagination_def where_frame)

lemma params_frame:
  "params (req\<lparr>examples_limit := a, examples_offset := b\<rparr>) =
     (params req)[examples_limit_pos req - 1 := PInt a, examples_offset_pos req - 1 := PInt b]"
proof -
  have n: "examples_limit_pos req - 1 = length (params_before_pagination req)"
    "examples_offset_pos req - 1 = length (params_before_pagination req) + 1"
    using length_params_before_pagination [of req] by (simp_all add: later_positions)
  show ?thesis
    unfolding n by (simp add: params_split params_before_pagination_frame list_update_append)
qed

lemma outer_placeholders:
  "placeholders
     (qt_examples @ total_matching_examples_count_sql req @ qt_from @ final_where_sql req @
      qt_freq_inf @ CHR ''$'' # str_nat (freq_inf_pos req) @ qt_gap @
      (if freq_sup req \<noteq> None
       then qt_freq_sup @ CHR ''$'' # str_nat (the (freq_sup_pos req)) else []) @
      qt_order_gap @ qt_order @
      CHR ''$'' # str_nat (results_limit_pos req) @ sql_offset @
      CHR ''$'' # str_nat (results_offset_pos req) @ qt_end) =
     [counter_after_freq req..<examples_limit_pos req] @
     [1..<freq_inf_pos req] @ [freq_inf_pos req..<counter_after_freq req] @
     [examples_limit_pos req + 2, examples_limit_pos req + 3]"
proof -
  have "placeholders
     (qt_examples @ total_matching_examples_count_sql req @ qt_from @ final_where_sql req @
      qt_freq_inf @ CHR ''$'' # str_nat (freq_inf_pos req) @ qt_gap @
      (if freq_sup req \<noteq> None
       then qt_freq_sup @ CHR ''$'' # str_nat (the (freq_sup_pos req)) else []) @
      qt_order_gap @ qt_order @
      CHR ''$'' # str_nat (results_limit_pos req) @ sql_offset @
      CHR ''$'' # str_nat (results_offset_pos req) @ qt_end) =
     book_filter_positions req @ [1..<freq_inf_pos req] @
     ([freq_inf_pos req] @ (case freq_sup_pos req of None \<Rightarrow> [] | Some k \<Rightarrow> [k])) @
     [results_limit_pos req, results_offset_pos req]"
    by (simp add: compose dollar_not_digit final_where_sql_clean
          final_where_sql_placeholders total_matching_examples_count_sql_placeholders
          freq_sup_pos_def total_matching_examples_count_sql_pieces
          books_filter_inner_sql_placeholders books_filter_inner_sql_clean)
  then show ?thesis
    unfolding freq_positions_upt book_filter_positions_upt later_positions by simp
qed

text \<open>
  Claim C10. Changing \<open>examples_limit\<close> and \<open>examples_offset\<close> leaves the whole query
  text as it is (so the WHERE predicates, the ORDER BY clause and the outer LIMIT/OFFSET are
  the same) and changes the argument list at the two example-pagination positions only.
  The two example-pagination placeholders occur in the limited-examples subquery and
  nowhere in the text before or after it.
\<close>

theorem example_pagination_frame:
  "query_template (req\<lparr>examples_limit := a, examples_offset := b\<rparr>) = query_template req \<and>
   params (req\<lparr>examples_limit := a, examples_offset := b\<rparr>) =
     (params req)[examples_limit_pos req - 1 := PInt a, examples_offset_pos req - 1 := PInt b] \<and>
   examples_limit_pos req \<in> set (placeholders (example_fetch_sql req)) \<and>
   examples_offset_pos req \<in> set (placeholders (example_fetch_sql req)) \<and>
   (\<exists>pre post.
      query_template req = pre @ example_fetch_sql req @ post \<and>
      placeholders (query_template req) =
        placeholders pre @ placeholders (example_fetch_sql req) @ placeholders post \<and>
      examples_limit_pos req \<notin> set (placeholders pre) \<and>
      examples_limit_pos req \<notin> set (placeholders post) \<and>
      examples_offset_pos req \<notin> set (placeholders pre) \<and>
      examples_offset_pos req \<notin> set (placeholders post))"
proof -
  define post where "post =
      qt_examples @ total_matching_examples_count_sql req @ qt_from @ final_where_sql req @
      qt_freq_inf @ CHR ''$'' # str_nat (freq_inf_pos req) @ qt_gap @
      (if freq_sup req \<noteq> None
       then qt_freq_sup @ CHR ''$'' # str_nat (the (freq_sup_pos req)) else []) @
      qt_order_gap @ qt_order @
      CHR ''$'' # str_nat (results_limit_pos req) @ sql_offset @
      CHR ''$'' # str_nat (results_offset_pos req) @ qt_end"
  note o = freq_inf_pos_ge [of req] counter_after_freq_gt [of req] examples_limit_pos_ge [of req]
  have q: "query_template req = qt_select @ example_fetch_sql req @ post"
    unfolding post_def by (rule query_template_pieces)
  have pp: "placeholders post =
     [counter_after_freq req..<examples_limit_pos req] @
     [1..<freq_inf_pos req] @ [freq_inf_pos req..<counter_after_freq req] @
     [examples_limit_pos req + 2, examples_limit_pos req + 3]"
    unfolding post_def by (rule outer_placeholders)
  have all: "placeholders (query_template req) =
        placeholders qt_select @ placeholders (example_fetch_sql req) @ placeholders post"
    unfolding pp
    by (simp add: query_template_placeholders_upt example_fetch_sql_placeholders
          book_filter_positions_upt later_positions pieces_placeholders)
  have out: "examples_limit_pos req \<notin> set (placeholders qt_select)"
    "examples_limit_pos req \<notin> set (placeholders post)"
    "examples_offset_pos req \<notin> set (placeholders qt_select)"
    "examples_offset_pos req \<notin> set (placeholders post)"
    unfolding pp using o by (auto simp add: pieces_placeholders later_positions)
  have inn: "examples_limit_pos req \<in> set (placeholders (example_fetch_sql req))"
    "examples_offset_pos req \<in> set (placeholders (example_fetch_sql req))"
    by (simp_all add: example_fetch_sql_placeholders)
  from q all out have "\<exists>pre post.
      query_template req = pre @ example_fetch_sql req @ post \<and>
      placeholders (query_template req) =
        placeholders pre @ placeholders (example_fetch_sql req) @ placeholders post \<and>
      examples_limit_pos req \<notin> set (placeholders pre) \<and>
      examples_limit_pos req \<notin> set (placeholders post) \<and>
      examples_offset_pos req \<notin> set (placeholders pre) \<and>
      examples_offset_pos req \<notin> set (placeholders post)"
    by blast
  with inn query_template_frame [where req = req and a = a and b = b]
    params_frame [where req = req and a = a and b = b] show ?thesis
    by simp
qed

theorem example_pagination_frame_witness:
  "query_template (example_request\<lparr>examples_limit := 7, examples_offset := 14\<rparr>) =
     query_template example_request \<and>
   params (example_request\<lparr>examples_limit := 7, examples_offset := 14\<rparr>) =
     [PText ''%run%'', PInt 5, PArray [''Shiji''], PInt 7, PInt 14, PInt 2, PInt 0] \<and>
   params example_request =
     [PText ''%run%'', PInt 5, PArray [''Shiji''], PInt 5, PInt 0, PInt 2, PInt 0]"
proof -
  have p: "examples_limit_pos example_request - 1 = Suc (Suc (Suc 0))"
    "examples_offset_pos example_request - 1 = Suc (Suc (Suc (Suc 0)))"
    by (simp_all add: example_request_positions later_positions)
  have "query_template (example_request\<lparr>examples_limit := 7, examples_offset := 14\<rparr>) =
          query_template example_request"
    and "params (example_request\<lparr>examples_limit := 7, examples_offset := 14\<rparr>) =
          (params example_request)[examples_limit_pos example_request - 1 := PInt 7,
            examples_offset_pos example_request - 1 := PInt 14]"
    using example_pagination_frame [where req = example_request and a = 7 and b = 14]
    by blast+
  then show ?thesis
    unfolding p by (simp add: example_request_params)
qed

section \<open>The text of the query\<close>

lemma set_join_str:
  "c \<notin> set sep \<Longrightarrow> \<forall>x\<in>set xs. c \<notin> set x \<Longrightarrow> c \<notin> set (join_str sep xs)"
  by (induction sep xs rule: join_str.induct) auto

lemma str_nat_avoids: "\<not> is_digit c \<Longrightarrow> c \<notin> set (str_nat n)"
  using str_nat_digits by blast

lemma letters_not_digits:
  "\<not> is_digit CHR ''B''" "\<not> is_digit CHR ''J''" "\<not> is_digit CHR ''<''" "\<not> is_digit CHR ''W''"
  by (simp_all add: is_digit_def)

lemma pieces_no_B:
  "CHR ''B'' \<notin> set bf_head" "CHR ''B'' \<notin> set bf_tail" "CHR ''B'' \<notin> set ef_head"
  "CHR ''B'' \<notin> set ef_limit" "CHR ''B'' \<notin> set sql_offset" "CHR ''B'' \<notin> set ef_tail"
  "CHR ''B'' \<notin> set tc_head" "CHR ''B'' \<notin> set tc_tail" "CHR ''B'' \<notin> set qt_select"
  "CHR ''B'' \<notin> set qt_examples" "CHR ''B'' \<notin> set qt_from" "CHR ''B'' \<notin> set qt_freq_inf"
  "CHR ''B'' \<notin> set qt_gap" "CHR ''B'' \<notin> set qt_freq_sup" "CHR ''B'' \<notin> set qt_order_gap"
  "CHR ''B'' \<notin> set qt_end"
  by (simp_all add: piece_defs)

lemma pieces_no_J:
  "CHR ''J'' \<notin> set bf_tail" "CHR ''J'' \<notin> set ef_head"
  "CHR ''J'' \<notin> set ef_limit" "CHR ''J'' \<notin> set sql_offset" "CHR ''J'' \<notin> set ef_tail"
  "CHR ''J'' \<notin> set tc_head" "CHR ''J'' \<notin> set tc_tail"
  by (simp_all add: piece_defs)

lemma pieces_no_lt:
  "CHR ''<'' \<notin> set bf_head" "CHR ''<'' \<notin> set bf_tail" "CHR ''<'' \<notin> set ef_head"
  "CHR ''<'' \<notin> set ef_limit" "CHR ''<'' \<notin> set sql_offset" "CHR ''<'' \<notin> set ef_tail"
  "CHR ''<'' \<notin> set tc_head" "CHR ''<'' \<notin> set tc_tail" "CHR ''<'' \<notin> set qt_select"
  "CHR ''<'' \<notin> set qt_examples" "CHR ''<'' \<notin> set qt_from" "CHR ''<'' \<notin> set qt_freq_inf"
  "CHR ''<'' \<notin> set qt_gap" "CHR ''<'' \<notin> set qt_order_gap" "CHR ''<'' \<notin> set qt_order"
  "CHR ''<'' \<notin> set qt_end"
  by (simp_all add: piece_defs)

lemma where_clauses_avoid:
  "\<forall>x\<in>set (where_clauses req). CHR ''B'' \<notin> set x"
  "\<forall>x\<in>set (where_clauses req). CHR ''<'' \<notin> set x"
  unfolding where_clauses_eq by (auto simp add: str_nat_avoids letters_not_digits)

lemma final_where_sql_avoids:
  "CHR ''B'' \<notin> set (final_where_sql req)" "CHR ''<'' \<notin> set (final_where_sql req)"
  unfolding final_where_sql_def by (rule set_join_str; simp add: where_clauses_avoid)+

lemma book_filter_conditions_avoid:
  "\<forall>x\<in>set (book_filter_conditions req). CHR ''B'' \<notin> set x"
  "\<forall>x\<in>set (book_filter_conditions req). CHR ''<'' \<notin> set x"
  by (auto simp add: book_filter_conditions_def str_nat_avoids letters_not_digits)

lemma books_filter_inner_sql_avoids:
  "CHR ''B'' \<notin> set (books_filter_inner_sql req)"
  "CHR ''<'' \<notin> set (books_filter_inner_sql req)"
proof -
  have "CHR ''B'' \<notin> set (join_str '' AND '' (book_filter_conditions req))"
    "CHR ''<'' \<notin> set (join_str '' AND '' (book_filter_conditions req))"
    by (rule set_join_str; simp add: book_filter_conditions_avoid)+
  then show "CHR ''B'' \<notin> set (books_filter_inner_sql req)"
    "CHR ''<'' \<notin> set (books_filter_inner_sql req)"
    by (simp_all add: books_filter_inner_sql_pieces pieces_no_B pieces_no_lt)
qed

lemma subqueries_avoid:
  "CHR ''B'' \<notin> set (example_fetch_sql req)"
  "CHR ''<'' \<notin> set (example_fetch_sql req)"
  "CHR ''B'' \<notin> set (total_matching_examples_count_sql req)"
  "CHR ''<'' \<notin> set (total_matching_examples_count_sql req)"
  by (simp_all add: example_fetch_sql_pieces total_matching_examples_count_sql_pieces
        pieces_no_B pieces_no_lt books_filter_inner_sql_avoids str_nat_avoids letters_not_digits)

lemma not_sublist_by_char: "c \<in> set xs \<Longrightarrow> c \<notin> set ys \<Longrightarrow> \<not> sublist xs ys"
  using set_mono_sublist by fastforce

lemma book_filter_conditions_Nil:
  "book_filter_conditions req = [] \<longleftrightarrow>
     \<not> truthy (book_names req) \<and> \<not> truthy (book_categories req) \<and>
     \<not> truthy (book_periods req) \<and> \<not> truthy (book_styles req)"
  by (simp add: book_filter_conditions_def)

lemma books_filter_inner_sql_Nil:
  "books_filter_inner_sql req = [] \<longleftrightarrow> book_filter_conditions req = []"
  by (simp add: books_filter_inner_sql_pieces pieces_nonempty)

lemma no_join_without_fragment:
  assumes "books_filter_inner_sql req = []"
  shows "\<not> sublist ''JOIN'' (example_fetch_sql req)"
    and "\<not> sublist ''JOIN'' (total_matching_examples_count_sql req)"
proof -
  have "CHR ''J'' \<notin> set (example_fetch_sql req)"
    "CHR ''J'' \<notin> set (total_matching_examples_count_sql req)"
    using assms
    by (simp_all add: example_fetch_sql_pieces total_matching_examples_count_sql_pieces
          pieces_no_J str_nat_avoids letters_not_digits)
  then show "\<not> sublist ''JOIN'' (example_fetch_sql req)"
    and "\<not> sublist ''JOIN'' (total_matching_examples_count_sql req)"
    by (intro not_sublist_by_char [of "CHR ''J''"]; simp)+
qed

lemma query_template_no_lt:
  assumes "freq_sup req = None"
  shows "CHR ''<'' \<notin> set (query_template req)"
  using assms
  by (simp add: query_template_pieces pieces_no_lt subqueries_avoid final_where_sql_avoids
        str_nat_avoids letters_not_digits)

lemma query_template_where_part:
  "\<exists>pre post.
     query_template req =
       pre @
       ''WHERE\<newline>'' @
       ''                    '' @ final_where_sql req @ ''\<newline>'' @
       ''                    AND mv_token_collocations.frequency >= $'' @
                             str_nat (freq_inf_pos req) @ ''\<newline>'' @
       ''                    '' @
       (if freq_sup req \<noteq> None
        then ''AND mv_token_collocations.frequency <= $'' @ str_nat (freq_inf_pos req + 1)
        else []) @ ''\<newline>'' @
       ''                ORDER BY'' @ post"
proof -
  obtain f where f: "qt_from = f @ ''WHERE\<newline>'' @ ''                    ''"
    by (simp add: qt_from_def)
  obtain o' where o': "qt_order = ''ORDER BY'' @ o'"
    by (simp add: qt_order_def)
  have "query_template req =
       (qt_select @ example_fetch_sql req @ qt_examples @
        total_matching_examples_count_sql req @ f) @
       ''WHERE\<newline>'' @
       ''                    '' @ final_where_sql req @ ''\<newline>'' @
       ''                    AND mv_token_collocations.frequency >= $'' @
                             str_nat (freq_inf_pos req) @ ''\<newline>'' @
       ''                    '' @
       (if freq_sup req \<noteq> None
        then ''AND mv_token_collocations.frequency <= $'' @ str_nat (freq_inf_pos req + 1)
        else []) @ ''\<newline>'' @
       ''                ORDER BY'' @
       (o' @ CHR ''$'' # str_nat (results_limit_pos req) @ sql_offset @
        CHR ''$'' # str_nat (results_offset_pos req) @ qt_end)"
    unfolding query_template_pieces f o'
    by (simp add: qt_freq_inf_def qt_gap_def qt_freq_sup_def qt_order_gap_def freq_sup_pos_def)
  then show ?thesis by blast
qed

lemma max_frequency_predicate_iff:
  "sublist ''frequency <= $'' (query_template req) \<longleftrightarrow> freq_sup req \<noteq> None"
proof
  assume "sublist ''frequency <= $'' (query_template req)"
  then have "CHR ''<'' \<in> set (query_template req)"
    using set_mono_sublist by fastforce
  then show "freq_sup req \<noteq> None"
    using query_template_no_lt by blast
next
  assume s: "freq_sup req \<noteq> None"
  obtain g where g: "qt_freq_sup = g @ ''frequency <= ''"
    by (simp add: qt_freq_sup_def)
  have "query_template req =
     (qt_select @ example_fetch_sql req @ qt_examples @
      total_matching_examples_count_sql req @ qt_from @ final_where_sql req @ qt_freq_inf @
      CHR ''$'' # str_nat (freq_inf_pos req) @ qt_gap @ g) @
     ''frequency <= $'' @
     (str_nat (the (freq_sup_pos req)) @ qt_order_gap @ qt_order @
      CHR ''$'' # str_nat (results_limit_pos req) @ sql_offset @
      CHR ''$'' # str_nat (results_offset_pos req) @ qt_end)"
    unfolding query_template_pieces g using s by simp
  then show "sublist ''frequency <= $'' (query_template req)"
    unfolding sublist_def by blast
qed

lemma min_frequency_predicate:
  "sublist (''frequency >= $'' @ str_nat (freq_inf_pos req)) (query_template req)"
proof -
  obtain g where g: "qt_freq_inf = g @ ''frequency >= ''"
    by (simp add: qt_freq_inf_def)
  have "query_template req =
     (qt_select @ example_fetch_sql req @ qt_examples @
      total_matching_examples_count_sql req @ qt_from @ final_where_sql req @ g) @
     (''frequency >= $'' @ str_nat (freq_inf_pos req)) @
     (qt_gap @
      (if freq_sup req \<noteq> None
       then qt_freq_sup @ CHR ''$'' # str_nat (the (freq_sup_pos req)) else []) @
      qt_order_gap @ qt_order @
      CHR ''$'' # str_nat (results_limit_pos req) @ sql_offset @
      CHR ''$'' # str_nat (results_offset_pos req) @ qt_end)"
    unfolding query_template_pieces g by simp
  then show ?thesis
    unfolding sublist_def by blast
qed

lemma full_request_positions:
  "freq_inf_pos full_request = 6" "freq_sup_pos full_request = Some 7"
  "book_names_pos full_request = Some 8" "categories_pos full_request = Some 9"
  "periods_pos full_request = Some 10" "styles_pos full_request = Some 11"
  "examples_limit_pos full_request = 12"
  by (simp_all add: positions_explicit full_request_present present_count_all)

lemma plain_request_absent:
  "\<not> truthy (book_names plain_request)" "\<not> truthy (book_categories plain_request)"
  "\<not> truthy (book_periods plain_request)" "\<not> truthy (book_styles plain_request)"
  "freq_sup plain_request = None" "truthy (head_text plain_request)"
  "\<not> truthy (dpdt_text plain_request)" "\<not> truthy (head_pos plain_request)"
  "\<not> truthy (dpdt_pos plain_request)" "\<not> truthy (dep_type plain_request)"
  "the (head_text plain_request) = ''run''"
  by (simp_all add: plain_request_def truthy_def)

lemma plain_request_positions:
  "freq_inf_pos plain_request = 2" "examples_limit_pos plain_request = 3"
  "examples_offset_pos plain_request = 4"
  by (simp_all add: positions_explicit later_positions plain_request_absent present_count_def)

lemma join_str_concat:
  "join_str sep xs = (case xs of [] \<Rightarrow> [] | x # ys \<Rightarrow> x @ concat (map (\<lambda>y. sep @ y) ys))"
  by (induction sep xs rule: join_str.induct) simp_all

lemma sublist_inside: "sublist x b \<Longrightarrow> sublist x (a @ b @ c)"
  unfolding sublist_def by (metis append.assoc)

lemma sublist_join_member: "x \<in> set xs \<Longrightarrow> sublist x (join_str sep xs)"
proof (induction sep xs rule: join_str.induct)
  case (3 sep a y ys)
  show ?case
  proof (cases "x = a")
    case True
    then show ?thesis by (simp add: sublist_append_rightI)
  next
    case False
    with 3 have "sublist x (join_str sep (y # ys))" by simp
    then have "sublist x ((a @ sep) @ join_str sep (y # ys) @ [])"
      by (rule sublist_inside)
    then show ?thesis by simp
  qed
qed simp_all

lemma book_condition_in_fragment:
  assumes "x \<in> set (book_filter_conditions req)"
  shows "sublist x (books_filter_inner_sql req)"
proof -
  from assms have n: "book_filter_conditions req \<noteq> []" by auto
  from assms have "sublist x (join_str '' AND '' (book_filter_conditions req))"
    by (rule sublist_join_member)
  then have "sublist x (bf_head @ join_str '' AND '' (book_filter_conditions req) @ bf_tail)"
    by (rule sublist_inside)
  with n show ?thesis by (simp add: books_filter_inner_sql_pieces)
qed

lemma fragment_in_query:
  "sublist (books_filter_inner_sql req) (query_template req)"
proof -
  have "query_template req =
     (qt_select @ ef_head) @ books_filter_inner_sql req @
     (ef_limit @ CHR ''$'' # str_nat (examples_limit_pos req) @ sql_offset @
      CHR ''$'' # str_nat (examples_offset_pos req) @ ef_tail @ qt_examples @
      total_matching_examples_count_sql req @ qt_from @ final_where_sql req @ qt_freq_inf @
      CHR ''$'' # str_nat (freq_inf_pos req) @ qt_gap @
      (if freq_sup req \<noteq> None then qt_freq_sup @ CHR ''$'' # str_nat (the (freq_sup_pos req))
       else []) @
      qt_order_gap @ qt_order @
      CHR ''$'' # str_nat (results_limit_pos req) @ sql_offset @
      CHR ''$'' # str_nat (results_offset_pos req) @ qt_end)"
    by (simp add: query_template_pieces example_fetch_sql_pieces)
  then show ?thesis unfolding sublist_def by blast
qed

lemma book_condition_in_query:
  assumes "x \<in> set (book_filter_conditions req)"
  shows "sublist x (query_template req)"
  using book_condition_in_fragment [OF assms] fragment_in_query [of req]
  by (rule sublist_order.order_trans)

lemma book_conditions_in_query:
  "book_names_pos req = Some k \<Longrightarrow>
     sublist (''name = ANY($'' @ str_nat k @ ''::text[])'') (query_template req)"
  "categories_pos req = Some k \<Longrightarrow>
     sublist (''category = ANY($'' @ str_nat k @ ''::text[])'') (query_template req)"
  "periods_pos req = Some k \<Longrightarrow>
     sublist (''period = ANY($'' @ str_nat k @ ''::text[])'') (query_template req)"
  "styles_pos req = Some k \<Longrightarrow>
     sublist (''style = ANY($'' @ str_nat k @ ''::text[])'') (query_template req)"
  by (rule book_condition_in_query;
      simp add: book_filter_conditions_def book_names_pos_def categories_pos_def
        periods_pos_def styles_pos_def split: if_splits)+

lemma where_text_in_query:
  "sublist
     (''WHERE\<newline>'' @
      ''                    '' @
      (case where_clauses req of
         [] \<Rightarrow> []
       | x # xs \<Rightarrow> x @ concat (map (\<lambda>y. '' AND '' @ y) xs)) @ ''\<newline>'' @
      ''                    AND mv_token_collocations.frequency >= $'' @
      str_nat (freq_inf_pos req) @ ''\<newline>'')
     (query_template req)"
proof -
  obtain f where f: "qt_from = f @ ''WHERE\<newline>'' @ ''                    ''"
    by (simp add: qt_from_def)
  obtain g where g: "qt_gap = ''\<newline>'' @ g"
    by (simp add: qt_gap_def)
  have w: "final_where_sql req =
      (case where_clauses req of
         [] \<Rightarrow> []
       | x # xs \<Rightarrow> x @ concat (map (\<lambda>y. '' AND '' @ y) xs))"
    unfolding final_where_sql_def by (rule join_str_concat)
  have "query_template req =
     (qt_select @ example_fetch_sql req @ qt_examples @
      total_matching_examples_count_sql req @ f) @
     (''WHERE\<newline>'' @
      ''                    '' @ final_where_sql req @ ''\<newline>'' @
      ''                    AND mv_token_collocations.frequency >= $'' @
      str_nat (freq_inf_pos req) @ ''\<newline>'') @
     (g @
      (if freq_sup req \<noteq> None then qt_freq_sup @ CHR ''$'' # str_nat (the (freq_sup_pos req))
       else []) @
      qt_order_gap @ qt_order @
      CHR ''$'' # str_nat (results_limit_pos req) @ sql_offset @
      CHR ''$'' # str_nat (results_offset_pos req) @ qt_end)"
    unfolding query_template_pieces f g by (simp add: qt_freq_inf_def)
  then have "sublist
     (''WHERE\<newline>'' @
      ''                    '' @ final_where_sql req @ ''\<newline>'' @
      ''                    AND mv_token_collocations.frequency >= $'' @
      str_nat (freq_inf_pos req) @ ''\<newline>'')
     (query_template req)"
    unfolding sublist_def by blast
  then show ?thesis unfolding w .
qed

lemma freq_sup_in_query:
  assumes "freq_sup_pos req = Some k"
  shows "sublist (''AND mv_token_collocations.frequency <= $'' @ str_nat k @ ''\<newline>'')
           (query_template req)"
proof -
  from assms have s: "freq_sup req \<noteq> None"
    by (simp add: freq_sup_pos_def split: if_splits)
  obtain g where g: "qt_order_gap = ''\<newline>'' @ g"
    by (simp add: qt_order_gap_def)
  have "query_template req =
     (qt_select @ example_fetch_sql req @ qt_examples @
      total_matching_examples_count_sql req @ qt_from @ final_where_sql req @ qt_freq_inf @
      CHR ''$'' # str_nat (freq_inf_pos req) @ qt_gap) @
     (''AND mv_token_collocations.frequency <= $'' @ str_nat k @ ''\<newline>'') @
     (g @ qt_order @
      CHR ''$'' # str_nat (results_limit_pos req) @ sql_offset @
      CHR ''$'' # str_nat (results_offset_pos req) @ qt_end)"
    unfolding query_template_pieces g using s assms by (simp add: qt_freq_sup_def)
  then show ?thesis unfolding sublist_def by blast
qed

lemma example_window_in_query:
  "sublist
     (''LIMIT $'' @ str_nat (examples_limit_pos req) @
      '' OFFSET $'' @ str_nat (examples_offset_pos req) @ ''\<newline>'' @
      ''                ) AS limited_examples)'')
     (query_template req)"
proof -
  obtain a where a: "ef_limit = a @ ''LIMIT ''"
    by (simp add: ef_limit_def)
  obtain b where b: "ef_tail = ''\<newline>'' @ ''                ) AS limited_examples)'' @ b"
    by (simp add: ef_tail_def)
  have "query_template req =
     (qt_select @ ef_head @ books_filter_inner_sql req @ a) @
     (''LIMIT $'' @ str_nat (examples_limit_pos req) @
      '' OFFSET $'' @ str_nat (examples_offset_pos req) @ ''\<newline>'' @
      ''                ) AS limited_examples)'') @
     (b @ qt_examples @
      total_matching_examples_count_sql req @ qt_from @ final_where_sql req @ qt_freq_inf @
      CHR ''$'' # str_nat (freq_inf_pos req) @ qt_gap @
      (if freq_sup req \<noteq> None then qt_freq_sup @ CHR ''$'' # str_nat (the (freq_sup_pos req))
       else []) @
      qt_order_gap @ qt_order @
      CHR ''$'' # str_nat (results_limit_pos req) @ sql_offset @
      CHR ''$'' # str_nat (results_offset_pos req) @ qt_end)"
    unfolding query_template_pieces example_fetch_sql_pieces a b by (simp add: sql_offset_def)
  then show ?thesis unfolding sublist_def by blast
qed

lemma results_window_in_query:
  "sublist
     (''example_count DESC\<newline>'' @
      ''                LIMIT $'' @ str_nat (results_limit_pos req) @
      '' OFFSET $'' @ str_nat (results_offset_pos req) @ '';'')
     (query_template req)"
proof -
  obtain a where a: "qt_order = a @ ''example_count DESC\<newline>'' @ ''                LIMIT ''"
    by (simp add: qt_order_def)
  obtain b where b: "qt_end = '';'' @ b"
    by (simp add: qt_end_def)
  have "query_template req =
     (qt_select @ example_fetch_sql req @ qt_examples @
      total_matching_examples_count_sql req @ qt_from @ final_where_sql req @ qt_freq_inf @
      CHR ''$'' # str_nat (freq_inf_pos req) @ qt_gap @
      (if freq_sup req \<noteq> None then qt_freq_sup @ CHR ''$'' # str_nat (the (freq_sup_pos req))
       else []) @
      qt_order_gap @ a) @
     (''example_count DESC\<newline>'' @
      ''                LIMIT $'' @ str_nat (results_limit_pos req) @
      '' OFFSET $'' @ str_nat (results_offset_pos req) @ '';'') @ b"
    unfolding query_template_pieces a b by (simp add: sql_offset_def)
  then show ?thesis unfolding sublist_def by blast
qed

lemma str_nat_more:
  "str_nat 6 = ''6''" "str_nat 7 = ''7''" "str_nat 8 = ''8''" "str_nat 9 = ''9''"
  "str_nat 10 = ''10''" "str_nat 11 = ''11''" "str_nat 12 = ''12''" "str_nat 13 = ''13''"
  "str_nat 14 = ''14''" "str_nat 15 = ''15''"
  by code_simp+

lemma sublist_weaken: "sublist x a \<Longrightarrow> sublist x (a @ b)"
  unfolding sublist_def by (metis append.assoc)

lemma count_subquery_text:
  "total_matching_examples_count_sql req =
     ''\<newline>'' @
     ''                (SELECT COUNT(*)\<newline>'' @
     ''                FROM jsonb_array_elements(examples) AS e\<newline>'' @
     ''                '' @
     (case (if truthy (book_names req)
            then [''name = ANY($'' @ str_nat (the (book_names_pos req)) @ ''::text[])'']
            else []) @
           (if truthy (book_categories req)
            then [''category = ANY($'' @ str_nat (the (categories_pos req)) @ ''::text[])'']
            else []) @
           (if truthy (book_periods req)
            then [''period = ANY($'' @ str_nat (the (periods_pos req)) @ ''::text[])'']
            else []) @
           (if truthy (book_styles req)
            then [''style = ANY($'' @ str_nat (the (styles_pos req)) @ ''::text[])'']
            else []) of
        [] \<Rightarrow> []
      | x # xs \<Rightarrow>
          ''\<newline>'' @
          ''                INNER JOIN (\<newline>'' @
          ''                    SELECT name FROM books\<newline>'' @
          ''                    WHERE '' @ x @ concat (map (\<lambda>y. '' AND '' @ y) xs) @ ''\<newline>'' @
          ''                ) AS boo ON boo.name = e->>'book'\<newline>'' @
          ''                '') @
     '' -- Use the reusable filter\<newline>'' @
     ''                )\<newline>'' @
     ''            ''"
proof -
  have "books_filter_inner_sql req =
     (case book_filter_conditions req of
        [] \<Rightarrow> []
      | x # xs \<Rightarrow>
          ''\<newline>'' @
          ''                INNER JOIN (\<newline>'' @
          ''                    SELECT name FROM books\<newline>'' @
          ''                    WHERE '' @ x @ concat (map (\<lambda>y. '' AND '' @ y) xs) @ ''\<newline>'' @
          ''                ) AS boo ON boo.name = e->>'book'\<newline>'' @
          ''                '')"
    by (cases "book_filter_conditions req")
       (simp_all add: books_filter_inner_sql_def join_str_concat)
  then show ?thesis
    unfolding book_filter_conditions_def
    by (simp only: total_matching_examples_count_sql_def)
qed

text \<open>
  Claim C5. The query text ends with the clause \<open>ORDER BY example_count DESC\<close> followed at
  once by the outer \<open>LIMIT\<close> and \<open>OFFSET\<close>: the clause has this one key and no second
  one, and it is not the \<open>frequency\<close> column. No other \<open>ORDER BY\<close> occurs before it.
  \<open>example_count\<close> is the name that the select list gives to the count subquery, and that
  subquery is \<open>SELECT COUNT(*)\<close> over the elements of the collocation's \<open>examples\<close>, joined
  with the books that satisfy the book filters that are present.
\<close>

theorem ordering_clause:
  "total_matching_examples_count_sql req =
     ''\<newline>'' @
     ''                (SELECT COUNT(*)\<newline>'' @
     ''                FROM jsonb_array_elements(examples) AS e\<newline>'' @
     ''                '' @
     (case (if truthy (book_names req)
            then [''name = ANY($'' @ str_nat (the (book_names_pos req)) @ ''::text[])'']
            else []) @
           (if truthy (book_categories req)
            then [''category = ANY($'' @ str_nat (the (categories_pos req)) @ ''::text[])'']
            else []) @
           (if truthy (book_periods req)
            then [''period = ANY($'' @ str_nat (the (periods_pos req)) @ ''::text[])'']
            else []) @
           (if truthy (book_styles req)
            then [''style = ANY($'' @ str_nat (the (styles_pos req)) @ ''::text[])'']
            else []) of
        [] \<Rightarrow> []
      | x # xs \<Rightarrow>
          ''\<newline>'' @
          ''                INNER JOIN (\<newline>'' @
          ''                    SELECT name FROM books\<newline>'' @
          ''                    WHERE '' @ x @ concat (map (\<lambda>y. '' AND '' @ y) xs) @ ''\<newline>'' @
          ''                ) AS boo ON boo.name = e->>'book'\<newline>'' @
          ''                '') @
     '' -- Use the reusable filter\<newline>'' @
     ''                )\<newline>'' @
     ''            '' \<and>
   (\<exists>pre. query_template req =
           pre @
           ''ORDER BY\<newline>'' @
           ''                    example_count DESC\<newline>'' @
           ''                LIMIT $'' @ str_nat (results_limit_pos req) @
           '' OFFSET $'' @ str_nat (results_offset_pos req) @ '';\<newline>'' @
           ''            '' \<and>
         \<not> sublist ''ORDER BY'' pre \<and>
         sublist (total_matching_examples_count_sql req @ '' AS example_count,'') pre)"
proof -
  define tl where "tl =
      final_where_sql req @ qt_freq_inf @ CHR ''$'' # str_nat (freq_inf_pos req) @ qt_gap @
      (if freq_sup req \<noteq> None
       then qt_freq_sup @ CHR ''$'' # str_nat (the (freq_sup_pos req)) else []) @
      qt_order_gap"
  define pre where "pre =
      qt_select @ example_fetch_sql req @ qt_examples @
      total_matching_examples_count_sql req @ qt_from @ tl"
  have q: "query_template req =
           pre @
           ''ORDER BY\<newline>'' @
           ''                    example_count DESC\<newline>'' @
           ''                LIMIT $'' @ str_nat (results_limit_pos req) @
           '' OFFSET $'' @ str_nat (results_offset_pos req) @ '';\<newline>'' @
           ''            ''"
    unfolding pre_def tl_def query_template_pieces
    by (simp add: qt_order_def sql_offset_def qt_end_def)
  have "CHR ''B'' \<notin> set tl"
    unfolding tl_def
    by (simp add: pieces_no_B final_where_sql_avoids str_nat_avoids letters_not_digits)
  then have "CHR ''B'' \<notin> set pre"
    unfolding pre_def by (simp add: pieces_no_B subqueries_avoid)
  then have n: "\<not> sublist ''ORDER BY'' pre"
    by (intro not_sublist_by_char [of "CHR ''B''"]) simp_all
  obtain r where r: "qt_from = '' AS example_count,'' @ r"
    by (simp add: qt_from_def)
  have "pre = (qt_select @ example_fetch_sql req @ qt_examples) @
              (total_matching_examples_count_sql req @ '' AS example_count,'') @ (r @ tl)"
    unfolding pre_def r by simp
  then have "sublist (total_matching_examples_count_sql req @ '' AS example_count,'') pre"
    unfolding sublist_def by blast
  with q n have "\<exists>pre. query_template req =
           pre @
           ''ORDER BY\<newline>'' @
           ''                    example_count DESC\<newline>'' @
           ''                LIMIT $'' @ str_nat (results_limit_pos req) @
           '' OFFSET $'' @ str_nat (results_offset_pos req) @ '';\<newline>'' @
           ''            '' \<and>
         \<not> sublist ''ORDER BY'' pre \<and>
         sublist (total_matching_examples_count_sql req @ '' AS example_count,'') pre"
    by blast
  with count_subquery_text [of req] show ?thesis
    by (intro conjI)
qed

theorem ordering_clause_witness:
  "sublist
     (''\<newline>'' @
      ''                (SELECT COUNT(*)\<newline>'' @
      ''                FROM jsonb_array_elements(examples) AS e\<newline>'' @
      ''                \<newline>'' @
      ''                INNER JOIN (\<newline>'' @
      ''                    SELECT name FROM books\<newline>'' @
      ''                    WHERE name = ANY($3::text[])\<newline>'' @
      ''                ) AS boo ON boo.name = e->>'book'\<newline>'' @
      ''                 -- Use the reusable filter\<newline>'' @
      ''                )\<newline>'' @
      ''             AS example_count,'')
     (query_template example_request) \<and>
   suffix
     (''ORDER BY\<newline>'' @
      ''                    example_count DESC\<newline>'' @
      ''                LIMIT $6 OFFSET $7;\<newline>'' @
      ''            '')
     (query_template example_request) \<and>
   sublist
     (''\<newline>'' @
      ''                (SELECT COUNT(*)\<newline>'' @
      ''                FROM jsonb_array_elements(examples) AS e\<newline>'' @
      ''                 -- Use the reusable filter\<newline>'' @
      ''                )\<newline>'' @
      ''             AS example_count,'')
     (query_template plain_request) \<and>
   suffix
     (''ORDER BY\<newline>'' @
      ''                    example_count DESC\<newline>'' @
      ''                LIMIT $5 OFFSET $6;\<newline>'' @
      ''            '')
     (query_template plain_request)"
proof -
  note P = ordering_clause [of example_request]
  note Q = ordering_clause [of plain_request]
  have e0: "truthy (book_names example_request)" "\<not> truthy (book_categories example_request)"
    "\<not> truthy (book_periods example_request)" "\<not> truthy (book_styles example_request)"
    by (simp_all add: example_request_def truthy_def)
  have e1: "book_names_pos example_request = Some 3" "results_limit_pos example_request = 6"
    "results_offset_pos example_request = 7"
    by (simp_all add: book_names_pos_def e0 example_request_positions later_positions)
  note e = e0 e1
  have p: "results_limit_pos plain_request = 5" "results_offset_pos plain_request = 6"
    by (simp_all add: plain_request_positions later_positions)
  have c1: "total_matching_examples_count_sql example_request @ '' AS example_count,'' =
      ''\<newline>'' @
      ''                (SELECT COUNT(*)\<newline>'' @
      ''                FROM jsonb_array_elements(examples) AS e\<newline>'' @
      ''                \<newline>'' @
      ''                INNER JOIN (\<newline>'' @
      ''                    SELECT name FROM books\<newline>'' @
      ''                    WHERE name = ANY($3::text[])\<newline>'' @
      ''                ) AS boo ON boo.name = e->>'book'\<newline>'' @
      ''                 -- Use the reusable filter\<newline>'' @
      ''                )\<newline>'' @
      ''             AS example_count,''"
    using P [THEN conjunct1] by (simp add: e str_nat_small)
  have c2: "total_matching_examples_count_sql plain_request @ '' AS example_count,'' =
      ''\<newline>'' @
      ''                (SELECT COUNT(*)\<newline>'' @
      ''                FROM jsonb_array_elements(examples) AS e\<newline>'' @
      ''                 -- Use the reusable filter\<newline>'' @
      ''                )\<newline>'' @
      ''             AS example_count,''"
    using Q [THEN conjunct1] by (simp add: plain_request_absent)
  from P [THEN conjunct2] obtain pre where
    q1: "query_template example_request =
           pre @
           ''ORDER BY\<newline>'' @
           ''                    example_count DESC\<newline>'' @
           ''                LIMIT $'' @ str_nat (results_limit_pos example_request) @
           '' OFFSET $'' @ str_nat (results_offset_pos example_request) @ '';\<newline>'' @
           ''            ''"
    and s1: "sublist (total_matching_examples_count_sql example_request @
                      '' AS example_count,'') pre"
    by blast
  from Q [THEN conjunct2] obtain pre' where
    q2: "query_template plain_request =
           pre' @
           ''ORDER BY\<newline>'' @
           ''                    example_count DESC\<newline>'' @
           ''                LIMIT $'' @ str_nat (results_limit_pos plain_request) @
           '' OFFSET $'' @ str_nat (results_offset_pos plain_request) @ '';\<newline>'' @
           ''            ''"
    and s2: "sublist (total_matching_examples_count_sql plain_request @
                      '' AS example_count,'') pre'"
    by blast
  have 1: "sublist (total_matching_examples_count_sql example_request @
                    '' AS example_count,'') (query_template example_request)"
    unfolding q1 using s1 by (rule sublist_weaken)
  have 2: "suffix
     (''ORDER BY\<newline>'' @
      ''                    example_count DESC\<newline>'' @
      ''                LIMIT $6 OFFSET $7;\<newline>'' @
      ''            '')
     (query_template example_request)"
    unfolding q1 by (simp add: e str_nat_more suffix_def)
  have 3: "sublist (total_matching_examples_count_sql plain_request @
                    '' AS example_count,'') (query_template plain_request)"
    unfolding q2 using s2 by (rule sublist_weaken)
  have 4: "suffix
     (''ORDER BY\<newline>'' @
      ''                    example_count DESC\<newline>'' @
      ''                LIMIT $5 OFFSET $6;\<newline>'' @
      ''            '')
     (query_template plain_request)"
    unfolding q2 by (simp add: p str_nat_small str_nat_more suffix_def)
  from 1 2 3 4 show ?thesis
    unfolding c1 c2 by (intro conjI)
qed

text \<open>
  Claim C3. Both example subqueries are a fixed text around the same
  \<open>books_filter_inner_sql\<close>, and the fixed text holds no join. The fragment is the inner
  join on the conditions of the book filters that are present, joined by \<open>AND\<close>; its
  placeholders are the positions of these filters, and the argument list holds the filter's
  list at each. When no book filter is present the fragment is empty, neither subquery
  contains a join, the count subquery has no placeholder and the examples subquery has the
  two pagination placeholders only.
\<close>

theorem book_filter_shared:
  "example_fetch_sql req =
     ef_head @ books_filter_inner_sql req @ ef_limit @
     ''$'' @ str_nat (examples_limit_pos req) @ sql_offset @
     ''$'' @ str_nat (examples_offset_pos req) @ ef_tail \<and>
   total_matching_examples_count_sql req = tc_head @ books_filter_inner_sql req @ tc_tail \<and>
   \<not> sublist ''JOIN'' (ef_head @ ef_limit @ sql_offset @ ef_tail @ tc_head @ tc_tail) \<and>
   books_filter_inner_sql req =
     (if truthy (book_names req) \<or> truthy (book_categories req) \<or>
         truthy (book_periods req) \<or> truthy (book_styles req)
      then bf_head @ join_str '' AND '' (book_filter_conditions req) @ bf_tail else []) \<and>
   placeholders (books_filter_inner_sql req) = book_filter_positions req \<and>
   book_filter_positions req =
     List.map_filter id
       [book_names_pos req, categories_pos req, periods_pos req, styles_pos req] \<and>
   (\<forall>k. book_names_pos req = Some k \<longrightarrow>
      params req ! (k - 1) = PArray (the (book_names req))) \<and>
   (\<forall>k. categories_pos req = Some k \<longrightarrow>
      params req ! (k - 1) = PArray (the (book_categories req))) \<and>
   (\<forall>k. periods_pos req = Some k \<longrightarrow>
      params req ! (k - 1) = PArray (the (book_periods req))) \<and>
   (\<forall>k. styles_pos req = Some k \<longrightarrow>
      params req ! (k - 1) = PArray (the (book_styles req))) \<and>
   (\<not> truthy (book_names req) \<and> \<not> truthy (book_categories req) \<and>
    \<not> truthy (book_periods req) \<and> \<not> truthy (book_styles req) \<longrightarrow>
      books_filter_inner_sql req = [] \<and>
      \<not> sublist ''JOIN'' (example_fetch_sql req) \<and>
      \<not> sublist ''JOIN'' (total_matching_examples_count_sql req) \<and>
      placeholders (total_matching_examples_count_sql req) = [] \<and>
      placeholders (example_fetch_sql req) =
        [examples_limit_pos req, examples_offset_pos req])"
proof -
  have a: "example_fetch_sql req =
     ef_head @ books_filter_inner_sql req @ ef_limit @
     ''$'' @ str_nat (examples_limit_pos req) @ sql_offset @
     ''$'' @ str_nat (examples_offset_pos req) @ ef_tail"
    by (simp add: example_fetch_sql_pieces)
  have b: "\<not> sublist ''JOIN'' (ef_head @ ef_limit @ sql_offset @ ef_tail @ tc_head @ tc_tail)"
    by (rule not_sublist_by_char [of "CHR ''J''"]) (simp_all add: pieces_no_J)
  have c: "books_filter_inner_sql req =
     (if truthy (book_names req) \<or> truthy (book_categories req) \<or>
         truthy (book_periods req) \<or> truthy (book_styles req)
      then bf_head @ join_str '' AND '' (book_filter_conditions req) @ bf_tail else [])"
    using book_filter_conditions_Nil [of req] by (auto simp add: books_filter_inner_sql_pieces)
  have d: "\<not> truthy (book_names req) \<and> \<not> truthy (book_categories req) \<and>
    \<not> truthy (book_periods req) \<and> \<not> truthy (book_styles req) \<longrightarrow>
      books_filter_inner_sql req = [] \<and>
      \<not> sublist ''JOIN'' (example_fetch_sql req) \<and>
      \<not> sublist ''JOIN'' (total_matching_examples_count_sql req) \<and>
      placeholders (total_matching_examples_count_sql req) = [] \<and>
      placeholders (example_fetch_sql req) =
        [examples_limit_pos req, examples_offset_pos req]"
  proof
    assume n: "\<not> truthy (book_names req) \<and> \<not> truthy (book_categories req) \<and>
      \<not> truthy (book_periods req) \<and> \<not> truthy (book_styles req)"
    then have e: "books_filter_inner_sql req = []"
      by (simp add: books_filter_inner_sql_Nil book_filter_conditions_Nil)
    have "book_filter_positions req = []"
      using e books_filter_inner_sql_placeholders [of req] by simp
    then show "books_filter_inner_sql req = [] \<and>
      \<not> sublist ''JOIN'' (example_fetch_sql req) \<and>
      \<not> sublist ''JOIN'' (total_matching_examples_count_sql req) \<and>
      placeholders (total_matching_examples_count_sql req) = [] \<and>
      placeholders (example_fetch_sql req) =
        [examples_limit_pos req, examples_offset_pos req]"
      using e no_join_without_fragment [OF e]
      by (simp add: total_matching_examples_count_sql_placeholders
            example_fetch_sql_placeholders)
  qed
  from a b c d show ?thesis
    using total_matching_examples_count_sql_pieces [of req]
      books_filter_inner_sql_placeholders [of req] params_at_books [of req]
    by (simp add: book_filter_positions_def)
qed

theorem book_filter_shared_witness:
  "book_names_pos full_request = Some 8 \<and> params full_request ! 7 = PArray [''Shiji''] \<and>
   categories_pos full_request = Some 9 \<and> params full_request ! 8 = PArray [''history''] \<and>
   periods_pos full_request = Some 10 \<and> params full_request ! 9 = PArray [''Han''] \<and>
   styles_pos full_request = Some 11 \<and> params full_request ! 10 = PArray [''prose''] \<and>
   placeholders (books_filter_inner_sql full_request) = [8, 9, 10, 11] \<and>
   \<not> truthy (book_names plain_request) \<and> \<not> truthy (book_categories plain_request) \<and>
   \<not> truthy (book_periods plain_request) \<and> \<not> truthy (book_styles plain_request) \<and>
   books_filter_inner_sql plain_request = [] \<and>
   \<not> sublist ''JOIN'' (example_fetch_sql plain_request) \<and>
   placeholders (example_fetch_sql plain_request) = [3, 4]"
proof -
  have f: "params full_request ! 7 = PArray [''Shiji'']"
    "params full_request ! 8 = PArray [''history'']"
    "params full_request ! 9 = PArray [''Han'']"
    "params full_request ! 10 = PArray [''prose'']"
    "placeholders (books_filter_inner_sql full_request) = [8, 9, 10, 11]"
    using book_filter_shared [of full_request]
    by (auto simp add: full_request_positions full_request_fields List.map_filter_simps)
  have p: "books_filter_inner_sql plain_request = []"
    "\<not> sublist ''JOIN'' (example_fetch_sql plain_request)"
    "placeholders (example_fetch_sql plain_request) = [3, 4]"
    using book_filter_shared [of plain_request]
    by (auto simp add: plain_request_absent plain_request_positions)
  from f p show ?thesis
    by (simp add: full_request_positions plain_request_absent)
qed

text \<open>
  Claim C4. The WHERE predicates are: one \<open>LIKE\<close> predicate with the pattern
  \<open>%value%\<close> for each text filter that is present, one \<open>= ANY(...)\<close> predicate for each
  set filter that is present, nothing for a filter that is absent (present is the test
  \<open>if x:\<close> of the source, so an empty text or list counts as absent). In the query text
  they stand after \<open>WHERE\<close>, the first as it is and each later one after \<open> AND \<close>; the
  minimum-frequency predicate follows with \<open>AND\<close> in every query, and the
  maximum-frequency predicate occurs in the text exactly when \<open>freq_sup\<close> is given.
\<close>

theorem predicate_assembly:
  "where_clauses req =
     (if truthy (head_text req) then [''head_text LIKE $'' @ str_nat 1] else []) @
     (if truthy (dpdt_text req)
      then [''dependent_text LIKE $'' @ str_nat (1 + of_bool (truthy (head_text req)))] else []) @
     (if truthy (head_pos req)
      then [''head_pos = ANY($'' @
            str_nat (1 + of_bool (truthy (head_text req)) + of_bool (truthy (dpdt_text req))) @
            ''::text[])''] else []) @
     (if truthy (dpdt_pos req)
      then [''dependent_pos = ANY($'' @
            str_nat (1 + of_bool (truthy (head_text req)) + of_bool (truthy (dpdt_text req)) +
                     of_bool (truthy (head_pos req))) @
            ''::text[])''] else []) @
     (if truthy (dep_type req)
      then [''dependency_type = ANY($'' @
            str_nat (1 + of_bool (truthy (head_text req)) + of_bool (truthy (dpdt_text req)) +
                     of_bool (truthy (head_pos req)) + of_bool (truthy (dpdt_pos req))) @
            ''::text[])''] else []) \<and>
   where_params req =
     (if truthy (head_text req) then [PText (''%'' @ the (head_text req) @ ''%'')] else []) @
     (if truthy (dpdt_text req) then [PText (''%'' @ the (dpdt_text req) @ ''%'')] else []) @
     (if truthy (head_pos req) then [PArray (the (head_pos req))] else []) @
     (if truthy (dpdt_pos req) then [PArray (the (dpdt_pos req))] else []) @
     (if truthy (dep_type req) then [PArray (the (dep_type req))] else []) \<and>
   length (where_clauses req) = length (where_params req) \<and>
   final_where_sql req =
     (case where_clauses req of
        [] \<Rightarrow> []
      | x # xs \<Rightarrow> x @ concat (map (\<lambda>y. '' AND '' @ y) xs)) \<and>
   (\<exists>rest. params req =
            where_params req @ PInt (freq_inf req) #
            (case freq_sup req of None \<Rightarrow> [] | Some v \<Rightarrow> [PInt v]) @ rest) \<and>
   sublist
     (''WHERE\<newline>'' @
      ''                    '' @
      (case where_clauses req of
         [] \<Rightarrow> []
       | x # xs \<Rightarrow> x @ concat (map (\<lambda>y. '' AND '' @ y) xs)) @ ''\<newline>'' @
      ''                    AND mv_token_collocations.frequency >= $'' @
                            str_nat (freq_inf_pos req) @ ''\<newline>'' @
      ''                    '' @
      (if freq_sup req \<noteq> None
       then ''AND mv_token_collocations.frequency <= $'' @ str_nat (freq_inf_pos req + 1)
       else []) @ ''\<newline>'' @
      ''                ORDER BY'')
     (query_template req) \<and>
   freq_inf_pos req = length (where_clauses req) + 1 \<and>
   sublist (''frequency >= $'' @ str_nat (freq_inf_pos req)) (query_template req) \<and>
   (sublist ''frequency <= $'' (query_template req) \<longleftrightarrow> freq_sup req \<noteq> None)"
proof -
  have p: "\<exists>rest. params req =
            where_params req @ PInt (freq_inf req) #
            (case freq_sup req of None \<Rightarrow> [] | Some v \<Rightarrow> [PInt v]) @ rest"
    by (simp add: params_def)
  have w: "final_where_sql req =
     (case where_clauses req of
        [] \<Rightarrow> []
      | x # xs \<Rightarrow> x @ concat (map (\<lambda>y. '' AND '' @ y) xs))"
    unfolding final_where_sql_def by (rule join_str_concat)
  have t: "sublist
     (''WHERE\<newline>'' @
      ''                    '' @
      (case where_clauses req of
         [] \<Rightarrow> []
       | x # xs \<Rightarrow> x @ concat (map (\<lambda>y. '' AND '' @ y) xs)) @ ''\<newline>'' @
      ''                    AND mv_token_collocations.frequency >= $'' @
                            str_nat (freq_inf_pos req) @ ''\<newline>'' @
      ''                    '' @
      (if freq_sup req \<noteq> None
       then ''AND mv_token_collocations.frequency <= $'' @ str_nat (freq_inf_pos req + 1)
       else []) @ ''\<newline>'' @
      ''                ORDER BY'')
     (query_template req)"
  proof -
    from query_template_where_part [of req] obtain pre post where
      "query_template req =
         pre @
         ''WHERE\<newline>'' @
         ''                    '' @ final_where_sql req @ ''\<newline>'' @
         ''                    AND mv_token_collocations.frequency >= $'' @
                               str_nat (freq_inf_pos req) @ ''\<newline>'' @
         ''                    '' @
         (if freq_sup req \<noteq> None
          then ''AND mv_token_collocations.frequency <= $'' @ str_nat (freq_inf_pos req + 1)
          else []) @ ''\<newline>'' @
         ''                ORDER BY'' @ post"
      by blast
    then have "query_template req =
         pre @
         (''WHERE\<newline>'' @
          ''                    '' @ final_where_sql req @ ''\<newline>'' @
          ''                    AND mv_token_collocations.frequency >= $'' @
                                str_nat (freq_inf_pos req) @ ''\<newline>'' @
          ''                    '' @
          (if freq_sup req \<noteq> None
           then ''AND mv_token_collocations.frequency <= $'' @ str_nat (freq_inf_pos req + 1)
           else []) @ ''\<newline>'' @
          ''                ORDER BY'') @ post"
      by (simp only: append_assoc)
    then show ?thesis
      unfolding w sublist_def by blast
  qed
  show ?thesis
    using where_clauses_eq [of req] where_params_eq [of req] length_where_clauses [of req]
      w p t positions_explicit(2) [of req] min_frequency_predicate [of req]
      max_frequency_predicate_iff [of req]
    by (intro conjI) assumption+
qed

theorem predicate_assembly_witness:
  "freq_sup full_request \<noteq> None \<and>
   sublist ''frequency <= $'' (query_template full_request) \<and>
   freq_sup plain_request = None \<and>
   \<not> sublist ''frequency <= $'' (query_template plain_request) \<and>
   where_clauses plain_request = [''head_text LIKE $1''] \<and>
   where_params plain_request = [PText ''%run%''] \<and>
   where_clauses full_request =
     [''head_text LIKE $1'', ''dependent_text LIKE $2'', ''head_pos = ANY($3::text[])'',
      ''dependent_pos = ANY($4::text[])'', ''dependency_type = ANY($5::text[])''] \<and>
   where_params full_request =
     [PText ''%run%'', PText ''%fast%'', PArray [''VERB''], PArray [''ADV''],
      PArray [''advmod'']] \<and>
   final_where_sql full_request =
     ''head_text LIKE $1 AND dependent_text LIKE $2 AND '' @
     ''head_pos = ANY($3::text[]) AND dependent_pos = ANY($4::text[]) AND '' @
     ''dependency_type = ANY($5::text[])'' \<and>
   sublist
     (''WHERE\<newline>'' @
      ''                    head_text LIKE $1 AND dependent_text LIKE $2 AND '' @
      ''head_pos = ANY($3::text[]) AND dependent_pos = ANY($4::text[]) AND '' @
      ''dependency_type = ANY($5::text[])\<newline>'' @
      ''                    AND mv_token_collocations.frequency >= $6\<newline>'' @
      ''                    AND mv_token_collocations.frequency <= $7\<newline>'' @
      ''                ORDER BY'')
     (query_template full_request) \<and>
   sublist
     (''WHERE\<newline>'' @
      ''                    head_text LIKE $1\<newline>'' @
      ''                    AND mv_token_collocations.frequency >= $2\<newline>'' @
      ''                    \<newline>'' @
      ''                ORDER BY'')
     (query_template plain_request)"
proof -
  note P = predicate_assembly [of full_request]
  note Q = predicate_assembly [of plain_request]
  have n: "Suc (Suc (Suc 0)) = 3" "Suc (Suc (Suc (Suc 0))) = 4"
    "Suc (Suc (Suc (Suc (Suc 0)))) = 5"
    by simp_all
  have a: "freq_sup full_request \<noteq> None" by (rule full_request_present)
  have b: "freq_sup plain_request = None" by (rule plain_request_absent)
  from P [THEN conjunct2, THEN conjunct2, THEN conjunct2, THEN conjunct2, THEN conjunct2, THEN conjunct2, THEN conjunct2, THEN conjunct2] a
  have 1: "sublist ''frequency <= $'' (query_template full_request)" by blast
  from Q [THEN conjunct2, THEN conjunct2, THEN conjunct2, THEN conjunct2, THEN conjunct2, THEN conjunct2, THEN conjunct2, THEN conjunct2] b
  have 2: "\<not> sublist ''frequency <= $'' (query_template plain_request)" by blast
  have 3: "where_clauses plain_request = [''head_text LIKE $1'']"
    using Q [THEN conjunct1]
    by (simp add: plain_request_absent str_nat_small)
  have 4: "where_params plain_request = [PText ''%run%'']"
    using Q [THEN conjunct2, THEN conjunct1]
    by (simp add: plain_request_absent)
  have 5: "where_clauses full_request =
     [''head_text LIKE $1'', ''dependent_text LIKE $2'', ''head_pos = ANY($3::text[])'',
      ''dependent_pos = ANY($4::text[])'', ''dependency_type = ANY($5::text[])'']"
    using P [THEN conjunct1]
    by (simp add: full_request_present n str_nat_small del: One_nat_def)
  have 6: "where_params full_request =
     [PText ''%run%'', PText ''%fast%'', PArray [''VERB''], PArray [''ADV''],
      PArray [''advmod'']]"
    using P [THEN conjunct2, THEN conjunct1]
    by (simp add: full_request_present full_request_fields)
  have 7: "final_where_sql full_request =
     ''head_text LIKE $1 AND dependent_text LIKE $2 AND '' @
     ''head_pos = ANY($3::text[]) AND dependent_pos = ANY($4::text[]) AND '' @
     ''dependency_type = ANY($5::text[])''"
    using P [THEN conjunct2, THEN conjunct2, THEN conjunct2, THEN conjunct1] by (simp add: 5)
  have 8: "sublist
     (''WHERE\<newline>'' @
      ''                    head_text LIKE $1 AND dependent_text LIKE $2 AND '' @
      ''head_pos = ANY($3::text[]) AND dependent_pos = ANY($4::text[]) AND '' @
      ''dependency_type = ANY($5::text[])\<newline>'' @
      ''                    AND mv_token_collocations.frequency >= $6\<newline>'' @
      ''                    AND mv_token_collocations.frequency <= $7\<newline>'' @
      ''                ORDER BY'')
     (query_template full_request)"
    using P [THEN conjunct2, THEN conjunct2, THEN conjunct2, THEN conjunct2, THEN conjunct2, THEN conjunct1]
    by (simp add: 5 a full_request_positions str_nat_more)
  have 9: "sublist
     (''WHERE\<newline>'' @
      ''                    head_text LIKE $1\<newline>'' @
      ''                    AND mv_token_collocations.frequency >= $2\<newline>'' @
      ''                    \<newline>'' @
      ''                ORDER BY'')
     (query_template plain_request)"
    using Q [THEN conjunct2, THEN conjunct2, THEN conjunct2, THEN conjunct2, THEN conjunct2, THEN conjunct1]
    by (simp add: 3 b plain_request_positions str_nat_small)
  from a b 1 2 3 4 5 6 7 8 9 show ?thesis by (intro conjI) simp_all
qed

text \<open>
  Claim C2. Every parameter has the position one plus the number of parameters present
  before it in the order: \<open>head_text\<close>, \<open>dpdt_text\<close>, \<open>head_pos\<close>, \<open>dpdt_pos\<close>,
  \<open>dep_type\<close> (the WHERE predicates as appended), \<open>freq_inf\<close>, \<open>freq_sup\<close>, book names,
  categories, periods, styles, \<open>examples_limit\<close>, \<open>examples_offset\<close>, \<open>results_limit\<close>,
  \<open>results_offset\<close>. The query text contains the predicate of each parameter with the
  placeholder of that position, and the argument list holds, at the index one below the
  position, the value that the predicate is about. The last position is the length of the
  list.
\<close>

theorem parameter_order:
  "sublist
     (''WHERE\<newline>'' @
      ''                    '' @
      (case where_clauses req of
         [] \<Rightarrow> []
       | x # xs \<Rightarrow> x @ concat (map (\<lambda>y. '' AND '' @ y) xs)) @ ''\<newline>'' @
      ''                    AND mv_token_collocations.frequency >= $'' @
      str_nat (freq_inf_pos req) @ ''\<newline>'')
     (query_template req) \<and>
   (\<forall>k. freq_sup_pos req = Some k \<longrightarrow>
      sublist (''AND mv_token_collocations.frequency <= $'' @ str_nat k @ ''\<newline>'')
        (query_template req)) \<and>
   (\<forall>k. book_names_pos req = Some k \<longrightarrow>
      sublist (''name = ANY($'' @ str_nat k @ ''::text[])'') (query_template req)) \<and>
   (\<forall>k. categories_pos req = Some k \<longrightarrow>
      sublist (''category = ANY($'' @ str_nat k @ ''::text[])'') (query_template req)) \<and>
   (\<forall>k. periods_pos req = Some k \<longrightarrow>
      sublist (''period = ANY($'' @ str_nat k @ ''::text[])'') (query_template req)) \<and>
   (\<forall>k. styles_pos req = Some k \<longrightarrow>
      sublist (''style = ANY($'' @ str_nat k @ ''::text[])'') (query_template req)) \<and>
   sublist
     (''LIMIT $'' @ str_nat (examples_limit_pos req) @
      '' OFFSET $'' @ str_nat (examples_offset_pos req) @ ''\<newline>'' @
      ''                ) AS limited_examples)'')
     (query_template req) \<and>
   sublist
     (''example_count DESC\<newline>'' @
      ''                LIMIT $'' @ str_nat (results_limit_pos req) @
      '' OFFSET $'' @ str_nat (results_offset_pos req) @ '';'')
     (query_template req) \<and>
   placeholders (query_template req) =
     List.map_filter id
       [book_names_pos req, categories_pos req, periods_pos req, styles_pos req] @
     [examples_limit_pos req, examples_offset_pos req] @
     List.map_filter id
       [book_names_pos req, categories_pos req, periods_pos req, styles_pos req] @
     [1..<freq_inf_pos req] @ [freq_inf_pos req] @
     (case freq_sup_pos req of None \<Rightarrow> [] | Some k \<Rightarrow> [k]) @
     [results_limit_pos req, results_offset_pos req] \<and>
   (truthy (head_text req) \<longrightarrow>
     where_clauses req ! 0 = ''head_text LIKE $'' @ str_nat 1 \<and>
     params req ! 0 = PText (''%'' @ the (head_text req) @ ''%'')) \<and>
   (truthy (dpdt_text req) \<longrightarrow>
     where_clauses req ! present_count [truthy (head_text req)] =
     ''dependent_text LIKE $'' @ str_nat (present_count [truthy (head_text req)] + 1) \<and>
     params req ! present_count [truthy (head_text req)] =
     PText (''%'' @ the (dpdt_text req) @ ''%'')) \<and>
   (truthy (head_pos req) \<longrightarrow>
     where_clauses req ! present_count [truthy (head_text req), truthy (dpdt_text req)] =
     ''head_pos = ANY($'' @
     str_nat (present_count [truthy (head_text req), truthy (dpdt_text req)] + 1) @
     ''::text[])'' \<and>
     params req ! present_count [truthy (head_text req), truthy (dpdt_text req)] =
     PArray (the (head_pos req))) \<and>
   (truthy (dpdt_pos req) \<longrightarrow>
     where_clauses req !
     present_count [truthy (head_text req), truthy (dpdt_text req), truthy (head_pos req)] =
     ''dependent_pos = ANY($'' @
     str_nat (present_count [truthy (head_text req), truthy (dpdt_text req),
     truthy (head_pos req)] + 1) @
     ''::text[])'' \<and>
     params req !
     present_count [truthy (head_text req), truthy (dpdt_text req), truthy (head_pos req)] =
     PArray (the (dpdt_pos req))) \<and>
   (truthy (dep_type req) \<longrightarrow>
     where_clauses req !
     present_count [truthy (head_text req), truthy (dpdt_text req), truthy (head_pos req),
     truthy (dpdt_pos req)] =
     ''dependency_type = ANY($'' @
     str_nat (present_count [truthy (head_text req), truthy (dpdt_text req),
     truthy (head_pos req), truthy (dpdt_pos req)] + 1) @
     ''::text[])'' \<and>
     params req !
     present_count [truthy (head_text req), truthy (dpdt_text req), truthy (head_pos req),
     truthy (dpdt_pos req)] =
     PArray (the (dep_type req))) \<and>
   length (where_clauses req) =
     present_count [truthy (head_text req), truthy (dpdt_text req), truthy (head_pos req),
     truthy (dpdt_pos req), truthy (dep_type req)] \<and>
   freq_inf_pos req = length (where_clauses req) + 1 \<and>
   freq_sup_pos req =
     (if freq_sup req \<noteq> None then Some (length (where_clauses req) + 2) else None) \<and>
   book_names_pos req =
     (if truthy (book_names req)
     then Some (length (where_clauses req) + 2 + present_count [freq_sup req \<noteq> None])
     else None) \<and>
   categories_pos req =
     (if truthy (book_categories req)
     then Some (length (where_clauses req) + 2 +
     present_count [freq_sup req \<noteq> None, truthy (book_names req)])
     else None) \<and>
   periods_pos req =
     (if truthy (book_periods req)
     then Some (length (where_clauses req) + 2 +
     present_count [freq_sup req \<noteq> None, truthy (book_names req),
     truthy (book_categories req)])
     else None) \<and>
   styles_pos req =
     (if truthy (book_styles req)
     then Some (length (where_clauses req) + 2 +
     present_count [freq_sup req \<noteq> None, truthy (book_names req),
     truthy (book_categories req), truthy (book_periods req)])
     else None) \<and>
   examples_limit_pos req =
     length (where_clauses req) + 2 +
     present_count [freq_sup req \<noteq> None, truthy (book_names req),
     truthy (book_categories req), truthy (book_periods req),
     truthy (book_styles req)] \<and>
   examples_offset_pos req = examples_limit_pos req + 1 \<and>
   results_limit_pos req = examples_limit_pos req + 2 \<and>
   results_offset_pos req = examples_limit_pos req + 3 \<and>
   length (params req) = results_offset_pos req \<and>
   params req ! (freq_inf_pos req - 1) = PInt (freq_inf req) \<and>
   (\<forall>k. freq_sup_pos req = Some k \<longrightarrow> params req ! (k - 1) = PInt (the (freq_sup req))) \<and>
   (\<forall>k. book_names_pos req = Some k \<longrightarrow>
     params req ! (k - 1) = PArray (the (book_names req))) \<and>
   (\<forall>k. categories_pos req = Some k \<longrightarrow>
     params req ! (k - 1) = PArray (the (book_categories req))) \<and>
   (\<forall>k. periods_pos req = Some k \<longrightarrow>
     params req ! (k - 1) = PArray (the (book_periods req))) \<and>
   (\<forall>k. styles_pos req = Some k \<longrightarrow>
     params req ! (k - 1) = PArray (the (book_styles req))) \<and>
   params req ! (examples_limit_pos req - 1) = PInt (examples_limit req) \<and>
   params req ! (examples_offset_pos req - 1) = PInt (examples_offset req) \<and>
   params req ! (results_limit_pos req - 1) = PInt (results_limit req) \<and>
   params req ! (results_offset_pos req - 1) = PInt (results_offset req)"
proof -
  have t: "placeholders (query_template req) =
     List.map_filter id
       [book_names_pos req, categories_pos req, periods_pos req, styles_pos req] @
     [examples_limit_pos req, examples_offset_pos req] @
     List.map_filter id
       [book_names_pos req, categories_pos req, periods_pos req, styles_pos req] @
     [1..<freq_inf_pos req] @ [freq_inf_pos req] @
     (case freq_sup_pos req of None \<Rightarrow> [] | Some k \<Rightarrow> [k]) @
     [results_limit_pos req, results_offset_pos req]"
    using query_template_placeholders [of req] unfolding book_filter_positions_def .
  show ?thesis
    using where_clause_at [of req] positions_explicit [of req] later_positions [of req]
      length_params [of req] params_at_freq [of req] params_at_books [of req]
      params_at_pagination [of req] where_text_in_query [of req] freq_sup_in_query [of req]
      book_conditions_in_query [of req] example_window_in_query [of req]
      results_window_in_query [of req] t
    by (intro conjI allI impI) (assumption | blast)+
qed

theorem parameter_order_witness:
  "truthy (head_text full_request) \<and> truthy (dpdt_text full_request) \<and>
   truthy (head_pos full_request) \<and> truthy (dpdt_pos full_request) \<and>
   truthy (dep_type full_request) \<and>
   where_clauses full_request ! 0 = ''head_text LIKE $1'' \<and>
   params full_request ! 0 = PText ''%run%'' \<and>
   where_clauses full_request ! 1 = ''dependent_text LIKE $2'' \<and>
   params full_request ! 1 = PText ''%fast%'' \<and>
   where_clauses full_request ! 2 = ''head_pos = ANY($3::text[])'' \<and>
   params full_request ! 2 = PArray [''VERB''] \<and>
   where_clauses full_request ! 3 = ''dependent_pos = ANY($4::text[])'' \<and>
   params full_request ! 3 = PArray [''ADV''] \<and>
   where_clauses full_request ! 4 = ''dependency_type = ANY($5::text[])'' \<and>
   params full_request ! 4 = PArray [''advmod''] \<and>
   freq_inf_pos full_request = 6 \<and> params full_request ! 5 = PInt 2 \<and>
   freq_sup_pos full_request = Some 7 \<and> params full_request ! 6 = PInt 90 \<and>
   book_names_pos full_request = Some 8 \<and> params full_request ! 7 = PArray [''Shiji''] \<and>
   categories_pos full_request = Some 9 \<and> params full_request ! 8 = PArray [''history''] \<and>
   periods_pos full_request = Some 10 \<and> params full_request ! 9 = PArray [''Han''] \<and>
   styles_pos full_request = Some 11 \<and> params full_request ! 10 = PArray [''prose''] \<and>
   examples_limit_pos full_request = 12 \<and> params full_request ! 11 = PInt 5 \<and>
   examples_offset_pos full_request = 13 \<and> params full_request ! 12 = PInt 10 \<and>
   results_limit_pos full_request = 14 \<and> params full_request ! 13 = PInt 8 \<and>
   results_offset_pos full_request = 15 \<and> params full_request ! 14 = PInt 16 \<and>
   length (params full_request) = 15 \<and>
   where_clauses full_request =
     [''head_text LIKE $1'', ''dependent_text LIKE $2'', ''head_pos = ANY($3::text[])'',
      ''dependent_pos = ANY($4::text[])'', ''dependency_type = ANY($5::text[])''] \<and>
   sublist
     (''WHERE\<newline>'' @
      ''                    head_text LIKE $1 AND dependent_text LIKE $2 AND '' @
      ''head_pos = ANY($3::text[]) AND dependent_pos = ANY($4::text[]) AND '' @
      ''dependency_type = ANY($5::text[])\<newline>'' @
      ''                    AND mv_token_collocations.frequency >= $6\<newline>'')
     (query_template full_request) \<and>
   sublist ''AND mv_token_collocations.frequency <= $7\<newline>''
     (query_template full_request) \<and>
   sublist ''name = ANY($8::text[])'' (query_template full_request) \<and>
   sublist ''category = ANY($9::text[])'' (query_template full_request) \<and>
   sublist ''period = ANY($10::text[])'' (query_template full_request) \<and>
   sublist ''style = ANY($11::text[])'' (query_template full_request) \<and>
   sublist (''LIMIT $12 OFFSET $13\<newline>'' @ ''                ) AS limited_examples)'')
     (query_template full_request) \<and>
   sublist (''example_count DESC\<newline>'' @ ''                LIMIT $14 OFFSET $15;'')
     (query_template full_request) \<and>
   placeholders (query_template full_request) =
     [8, 9, 10, 11, 12, 13, 8, 9, 10, 11, 1, 2, 3, 4, 5, 6, 7, 14, 15]"
proof -
  note P = parameter_order [of full_request]
  have n: "Suc (Suc (Suc 0)) = 3" "Suc (Suc (Suc (Suc 0))) = 4"
    "Suc (Suc (Suc (Suc (Suc 0)))) = 5"
    by simp_all
  have w: "where_clauses full_request =
     [''head_text LIKE $1'', ''dependent_text LIKE $2'', ''head_pos = ANY($3::text[])'',
      ''dependent_pos = ANY($4::text[])'', ''dependency_type = ANY($5::text[])'']"
    unfolding where_clauses_eq
    by (simp add: full_request_present n str_nat_small del: One_nat_def)
  have "[1..<6] = [1, 2, 3, 4, 5::nat]"
    by code_simp
  then have u: "[Suc 0..<6] = [Suc 0, 2, 3, 4, 5]"
    by simp
  note q = full_request_positions later_positions
  have o: "truthy (head_text full_request) \<and> truthy (dpdt_text full_request) \<and>
   truthy (head_pos full_request) \<and> truthy (dpdt_pos full_request) \<and>
   truthy (dep_type full_request) \<and>
   where_clauses full_request ! 0 = ''head_text LIKE $1'' \<and>
   params full_request ! 0 = PText ''%run%'' \<and>
   where_clauses full_request ! 1 = ''dependent_text LIKE $2'' \<and>
   params full_request ! 1 = PText ''%fast%'' \<and>
   where_clauses full_request ! 2 = ''head_pos = ANY($3::text[])'' \<and>
   params full_request ! 2 = PArray [''VERB''] \<and>
   where_clauses full_request ! 3 = ''dependent_pos = ANY($4::text[])'' \<and>
   params full_request ! 3 = PArray [''ADV''] \<and>
   where_clauses full_request ! 4 = ''dependency_type = ANY($5::text[])'' \<and>
   params full_request ! 4 = PArray [''advmod''] \<and>
   freq_inf_pos full_request = 6 \<and> params full_request ! 5 = PInt 2 \<and>
   freq_sup_pos full_request = Some 7 \<and> params full_request ! 6 = PInt 90 \<and>
   book_names_pos full_request = Some 8 \<and> params full_request ! 7 = PArray [''Shiji''] \<and>
   categories_pos full_request = Some 9 \<and> params full_request ! 8 = PArray [''history''] \<and>
   periods_pos full_request = Some 10 \<and> params full_request ! 9 = PArray [''Han''] \<and>
   styles_pos full_request = Some 11 \<and> params full_request ! 10 = PArray [''prose''] \<and>
   examples_limit_pos full_request = 12 \<and> params full_request ! 11 = PInt 5 \<and>
   examples_offset_pos full_request = 13 \<and> params full_request ! 12 = PInt 10 \<and>
   results_limit_pos full_request = 14 \<and> params full_request ! 13 = PInt 8 \<and>
   results_offset_pos full_request = 15 \<and> params full_request ! 14 = PInt 16 \<and>
   length (params full_request) = 15"
    using P [THEN conjunct2, THEN conjunct2, THEN conjunct2, THEN conjunct2, THEN conjunct2, THEN conjunct2, THEN conjunct2, THEN conjunct2, THEN conjunct2]
    by (auto simp add: full_request_present full_request_fields present_count_all
          str_nat_small)
  have t1: "sublist
     (''WHERE\<newline>'' @
      ''                    head_text LIKE $1 AND dependent_text LIKE $2 AND '' @
      ''head_pos = ANY($3::text[]) AND dependent_pos = ANY($4::text[]) AND '' @
      ''dependency_type = ANY($5::text[])\<newline>'' @
      ''                    AND mv_token_collocations.frequency >= $6\<newline>'')
     (query_template full_request)"
    using P [THEN conjunct1] by (simp add: w q str_nat_more)
  have t2: "sublist ''AND mv_token_collocations.frequency <= $7\<newline>''
     (query_template full_request)"
    using P [THEN conjunct2, THEN conjunct1] by (simp add: q str_nat_more)
  have t3: "sublist ''name = ANY($8::text[])'' (query_template full_request)"
    using P [THEN conjunct2, THEN conjunct2, THEN conjunct1] by (simp add: q str_nat_more)
  have t4: "sublist ''category = ANY($9::text[])'' (query_template full_request)"
    using P [THEN conjunct2, THEN conjunct2, THEN conjunct2, THEN conjunct1] by (simp add: q str_nat_more)
  have t5: "sublist ''period = ANY($10::text[])'' (query_template full_request)"
    using P [THEN conjunct2, THEN conjunct2, THEN conjunct2, THEN conjunct2, THEN conjunct1] by (simp add: q str_nat_more)
  have t6: "sublist ''style = ANY($11::text[])'' (query_template full_request)"
    using P [THEN conjunct2, THEN conjunct2, THEN conjunct2, THEN conjunct2, THEN conjunct2, THEN conjunct1] by (simp add: q str_nat_more)
  have t7: "sublist (''LIMIT $12 OFFSET $13\<newline>'' @ ''                ) AS limited_examples)'')
     (query_template full_request)"
    using P [THEN conjunct2, THEN conjunct2, THEN conjunct2, THEN conjunct2, THEN conjunct2, THEN conjunct2, THEN conjunct1] by (simp add: q str_nat_more)
  have t8: "sublist (''example_count DESC\<newline>'' @ ''                LIMIT $14 OFFSET $15;'')
     (query_template full_request)"
    using P [THEN conjunct2, THEN conjunct2, THEN conjunct2, THEN conjunct2, THEN conjunct2, THEN conjunct2, THEN conjunct2, THEN conjunct1] by (simp add: q str_nat_more)
  have t9: "placeholders (query_template full_request) =
     [8, 9, 10, 11, 12, 13, 8, 9, 10, 11, 1, 2, 3, 4, 5, 6, 7, 14, 15]"
    using P [THEN conjunct2, THEN conjunct2, THEN conjunct2, THEN conjunct2, THEN conjunct2, THEN conjunct2, THEN conjunct2, THEN conjunct2, THEN conjunct1] by (simp add: q u List.map_filter_simps)
  from o w t1 t2 t3 t4 t5 t6 t7 t8 t9 show ?thesis by (intro conjI) simp_all
qed

section \<open>The WHERE clause is never empty\<close>

lemma dangling_where_other: "c \<noteq> CHR ''W'' \<Longrightarrow> dangling_where (c # s) = dangling_where s"
  by simp

lemma dangling_where_skip: "CHR ''W'' \<notin> set a \<Longrightarrow> dangling_where (a @ b) = dangling_where b"
  by (induction a) auto

lemma dangling_where_free: "CHR ''W'' \<notin> set a \<Longrightarrow> \<not> dangling_where a"
  using dangling_where_skip [of a "[]"] by simp

lemma dangling_where_bf_head:
  "starts_with_operand s \<Longrightarrow> dangling_where (bf_head @ s) = dangling_where s"
  by (cases s) (auto simp add: bf_head_def starts_with_operand_def is_space_def)

lemma dangling_where_qt_from:
  "starts_with_operand s \<Longrightarrow> dangling_where (qt_from @ s) = dangling_where s"
  by (cases s) (auto simp add: qt_from_def starts_with_operand_def is_space_def)

lemma dangling_where_qt_from_empty:
  "dangling_where (qt_from @ qt_freq_inf @ s)"
  by (simp add: qt_from_def qt_freq_inf_def is_space_def)

lemma pieces_no_W:
  "CHR ''W'' \<notin> set bf_tail" "CHR ''W'' \<notin> set ef_head"
  "CHR ''W'' \<notin> set ef_limit" "CHR ''W'' \<notin> set sql_offset" "CHR ''W'' \<notin> set ef_tail"
  "CHR ''W'' \<notin> set tc_head" "CHR ''W'' \<notin> set tc_tail" "CHR ''W'' \<notin> set qt_select"
  "CHR ''W'' \<notin> set qt_examples" "CHR ''W'' \<notin> set qt_freq_inf"
  "CHR ''W'' \<notin> set qt_gap" "CHR ''W'' \<notin> set qt_freq_sup" "CHR ''W'' \<notin> set qt_order_gap"
  "CHR ''W'' \<notin> set qt_order" "CHR ''W'' \<notin> set qt_end"
  by (simp_all add: piece_defs)

lemma where_clauses_no_W: "\<forall>x\<in>set (where_clauses req). CHR ''W'' \<notin> set x"
  unfolding where_clauses_eq by (auto simp add: str_nat_avoids letters_not_digits)

lemma final_where_sql_no_W: "CHR ''W'' \<notin> set (final_where_sql req)"
  unfolding final_where_sql_def by (rule set_join_str; simp add: where_clauses_no_W)

lemma book_filter_conditions_no_W: "\<forall>x\<in>set (book_filter_conditions req). CHR ''W'' \<notin> set x"
  by (auto simp add: book_filter_conditions_def str_nat_avoids letters_not_digits)

lemma book_join_no_W: "CHR ''W'' \<notin> set (join_str '' AND '' (book_filter_conditions req))"
  by (rule set_join_str; simp add: book_filter_conditions_no_W)

lemma join_str_head: "\<exists>r. join_str sep (x # xs) = x @ r"
  by (cases xs) simp_all

lemma book_join_operand:
  assumes "book_filter_conditions req \<noteq> []"
  shows "starts_with_operand (join_str '' AND '' (book_filter_conditions req) @ s)"
proof -
  from assms obtain x xs where c: "book_filter_conditions req = x # xs"
    by (cases "book_filter_conditions req") auto
  then have "x \<in> set (book_filter_conditions req)" by simp
  then have "starts_with_operand x"
    by (auto simp add: book_filter_conditions_def starts_with_operand_def is_space_def
          split: if_splits)
  moreover obtain r where "join_str '' AND '' (x # xs) = x @ r"
    using join_str_head by blast
  ultimately show ?thesis
    unfolding c by (cases x) (auto simp add: starts_with_operand_def)
qed

lemma books_filter_inner_sql_not_dangling:
  "dangling_where (books_filter_inner_sql req @ s) = dangling_where s"
  by (simp add: books_filter_inner_sql_pieces dangling_where_bf_head book_join_operand
        dangling_where_skip book_join_no_W pieces_no_W)

lemma final_where_sql_operand:
  assumes "passes_validation req"
  shows "starts_with_operand (final_where_sql req @ s)"
  using final_where_sql_head [OF assms]
  by (auto simp add: prefix_def starts_with_operand_def is_space_def)

lemma str_nat_no_W: "CHR ''W'' \<notin> set (str_nat n)"
  by (simp add: str_nat_avoids letters_not_digits)

lemma query_template_not_dangling:
  assumes "passes_validation req"
  shows "\<not> dangling_where (query_template req)"
  by (simp add: query_template_pieces example_fetch_sql_pieces
        total_matching_examples_count_sql_pieces dangling_where_skip pieces_no_W
        books_filter_inner_sql_not_dangling dangling_where_qt_from
        final_where_sql_operand [OF assms] final_where_sql_no_W str_nat_no_W
        dangling_where_free dangling_where_other del: dangling_where.simps(2))

lemma empty_where_is_dangling:
  assumes "where_clauses req = []"
  shows "dangling_where (query_template req)"
proof -
  have "final_where_sql req = []"
    using assms by (simp add: final_where_sql_def)
  then show ?thesis
    by (simp add: query_template_pieces example_fetch_sql_pieces
          total_matching_examples_count_sql_pieces dangling_where_skip pieces_no_W
          books_filter_inner_sql_not_dangling dangling_where_qt_from_empty str_nat_no_W
          dangling_where_other del: dangling_where.simps(2))
qed

text \<open>
  Claim C8. For a request that passes the validation of line 81, whatever other filters
  it has, the list of WHERE predicates is not empty, the joined WHERE text begins with the
  predicate on \<open>head_text\<close> or on \<open>dependent_text\<close>, and the query text has no dangling
  \<open>WHERE AND\<close>. (Lemma \<open>empty_where_is_dangling\<close> shows that the text would have one
  if the list were empty.)
\<close>

theorem where_clause_not_degenerate:
  assumes "passes_validation req"
  shows "where_clauses req \<noteq> [] \<and>
         (prefix ''head_text LIKE $1'' (final_where_sql req) \<or>
          prefix ''dependent_text LIKE $1'' (final_where_sql req)) \<and>
         \<not> dangling_where (query_template req)"
proof -
  have "where_clauses req \<noteq> []"
    using assms unfolding where_clauses_eq by (auto simp add: passes_validation_def)
  with final_where_sql_head [OF assms] query_template_not_dangling [OF assms]
  show ?thesis by blast
qed

theorem where_clause_not_degenerate_witness:
  "passes_validation example_request \<and> where_clauses example_request \<noteq> [] \<and>
   prefix ''head_text LIKE $1'' (final_where_sql example_request) \<and>
   \<not> dangling_where (query_template example_request)"
proof -
  have w: "final_where_sql example_request = ''head_text LIKE $1''"
    unfolding final_where_sql_def where_clauses_eq
    by (simp add: example_request_def truthy_def str_nat_small)
  from where_clause_not_degenerate [OF example_request_valid] show ?thesis
    by (simp add: example_request_valid w)
qed

end
